theory Spec2Isabelle
  imports Complex_Main
begin

section \<open>The planning scene display of the rviz plugin\<close>

text \<open>
  A shallow embedding of \<^verbatim>\<open>planning_scene_display.cpp\<close>
  (class \<^verbatim>\<open>moveit_rviz_plugin::PlanningSceneDisplay\<close>).

  The display is a record of its members. Objects it points to are held by value behind
  an \<open>option\<close>: \<open>None\<close> is the null (or not yet assigned) pointer. Dereferencing a
  null pointer is undefined behaviour in C++; here it is the fault \<open>NullDereference\<close>,
  which ends the call. Calls into the host and into collaborators whose effect the
  display never reads back are recorded as events, in program order. Everything a
  collaborator decides (what a freshly constructed scene monitor holds, whether the
  renderer throws, what tf answers) is read from an \<open>environment\<close>, about which
  nothing is assumed; so is what the display inherits from \<^verbatim>\<open>rviz::Display\<close> and the
  host sets: whether it is enabled, its name, the fixed frame, and the two pointers
  \<^verbatim>\<open>context_\<close> and \<^verbatim>\<open>scene_node_\<close>, which are null until the host initialises the
  display. Constructors of collaborators are taken to return.

  The C++ type \<^verbatim>\<open>float\<close> is the type variable \<open>'f\<close>. The member functions only
  add, compare and copy floats, so they are defined for every type that has these
  operations, with no law assumed about them.

  Every member function of the file is modelled, under its own name, except the
  destructor, which only deletes the robot. The two overloads of \<^verbatim>\<open>setLinkColor\<close> and
  of \<^verbatim>\<open>unsetLinkColor\<close> are told apart by the suffix \<open>_robot\<close> on the forms that take a
  \<^verbatim>\<open>rviz::Robot*\<close>.
\<close>

subsection \<open>Values passed around\<close>

datatype QColor = QColor (red: nat) (green: nat) (blue: nat)

text \<open>\<^verbatim>\<open>rviz::Color\<close>: three channels in \<open>[0, 1]\<close>. The channels are only handed on to
  the renderer and to robot links, never computed with, so they are kept as exact
  quotients.\<close>

datatype rviz_Color = Color rat rat rat

definition redF :: "QColor \<Rightarrow> rat" where
  "redF c = of_nat (red c) / 255"

definition greenF :: "QColor \<Rightarrow> rat" where
  "greenF c = of_nat (green c) / 255"

definition blueF :: "QColor \<Rightarrow> rat" where
  "blueF c = of_nat (blue c) / 255"

datatype URDF = URDF (urdf_link_names: "string list")

datatype KinematicState = KinematicState nat

datatype Config = Config string

type_synonym Time = nat

datatype SceneUpdateType =
  UPDATE_NONE | UPDATE_STATE | UPDATE_TRANSFORMS | UPDATE_GEOMETRY | UPDATE_SCENE

datatype StatusLevel = Ok | Warn | Error

datatype cpp_exception = TransformException string | OtherException string

subsection \<open>Properties of the host's property panel\<close>

text \<open>The slots of the display, as named in the \<^verbatim>\<open>SLOT(...)\<close> arguments of the
  constructor.\<close>

datatype slot =
    SLOT_changedRobotDescription
  | SLOT_changedPlanningSceneTopic
  | SLOT_changedSceneName
  | SLOT_changedSceneEnabled
  | SLOT_changedSceneAlpha
  | SLOT_changedSceneColor
  | SLOT_changedRootLinkName
  | SLOT_changedSceneRobotEnabled
  | SLOT_changedRobotSceneAlpha
  | SLOT_changedAttachedBodyColor
  | SLOT_changedSceneDisplayTime

record 'v Property =
  prop_value :: 'v
  prop_slot :: slot
  prop_read_only :: bool
  prop_should_be_saved :: bool

record 'f FloatProperty = "'f Property" +
  prop_min :: "'f option"
  prop_max :: "'f option"

definition new_Property :: "'v \<Rightarrow> slot \<Rightarrow> 'v Property" where
  "new_Property v s =
     \<lparr>prop_value = v, prop_slot = s, prop_read_only = False, prop_should_be_saved = True\<rparr>"

definition new_FloatProperty :: "'f \<Rightarrow> slot \<Rightarrow> 'f FloatProperty" where
  "new_FloatProperty v s =
     \<lparr>prop_value = v, prop_slot = s, prop_read_only = False, prop_should_be_saved = True,
      prop_min = None, prop_max = None\<rparr>"

text \<open>\<^verbatim>\<open>setMin\<close> and \<^verbatim>\<open>setMax\<close> record the bound. The host also clamps values into the
  bounds; that belongs to the property panel and is left out, so a property may hold
  any value here.\<close>

definition setMin :: "'f \<Rightarrow> 'f FloatProperty \<Rightarrow> 'f FloatProperty" where
  "setMin v p = p\<lparr>prop_min := Some v\<rparr>"

definition setMax :: "'f \<Rightarrow> 'f FloatProperty \<Rightarrow> 'f FloatProperty" where
  "setMax v p = p\<lparr>prop_max := Some v\<rparr>"

subsection \<open>The scene monitor and what it provides\<close>

record PlanningScene =
  scene_name :: string
  scene_configured :: bool
  scene_planning_frame :: string
  scene_current_state :: KinematicState

record JointModelGroup =
  link_model_names :: "string list"

record KinematicModel =
  root_link_name :: string
  model_urdf :: URDF
  joint_model_group :: "string \<Rightarrow> JointModelGroup option"
  link_model_names_with_collision_geometry :: "string list"

text \<open>A \<^verbatim>\<open>PlanningSceneMonitor\<close> as the display sees it: the two shared pointers its
  accessors return, either of which may be empty.\<close>

record PlanningSceneMonitor =
  monitor_planning_scene :: "PlanningScene option"
  monitor_kinematic_model :: "KinematicModel option"

datatype callback = CB_sceneMonitorReceivedUpdate

subsection \<open>The robot visual and the scene nodes\<close>

text \<open>\<^verbatim>\<open>rviz::Robot\<close> and \<^verbatim>\<open>Ogre::SceneNode\<close> belong to the host. Of their state, what
  this file sets or reads is kept: the links of a robot by name, each with the colour
  set on it, the visibility flags and the alpha; the visibility, position and
  orientation of a node. \<^verbatim>\<open>Robot::clear\<close> removes the links and \<^verbatim>\<open>Robot::load\<close> makes one
  link for every link of the URDF. What the renderer draws into them is not kept.\<close>

record RobotLink =
  link_color :: "rviz_Color option"

record 'f Robot =
  robot_links :: "string \<Rightarrow> RobotLink option"
  robot_visible :: bool
  robot_visual_visible :: bool
  robot_collision_visible :: bool
  robot_alpha :: 'f

definition new_Robot :: "'f::one Robot" where
  "new_Robot =
     \<lparr>robot_links = (\<lambda>_. None), robot_visible = True, robot_visual_visible = True,
      robot_collision_visible = False, robot_alpha = 1\<rparr>"

definition Robot_clear :: "'f Robot \<Rightarrow> 'f Robot" where
  "Robot_clear r = r\<lparr>robot_links := (\<lambda>_. None)\<rparr>"

definition Robot_load :: "URDF \<Rightarrow> 'f Robot \<Rightarrow> 'f Robot" where
  "Robot_load u r =
     r\<lparr>robot_links :=
         (\<lambda>n. if n \<in> set (urdf_link_names u) then Some \<lparr>link_color = None\<rparr> else None)\<rparr>"

definition getLink :: "'f Robot \<Rightarrow> string \<Rightarrow> RobotLink option" where
  "getLink r n = robot_links r n"

record 'f SceneNode =
  node_visible :: bool
  node_position :: "'f \<times> 'f \<times> 'f"
  node_orientation :: "'f \<times> 'f \<times> 'f \<times> 'f"

definition createChildSceneNode :: "'f::{zero,one} SceneNode" where
  "createChildSceneNode =
     \<lparr>node_visible = True, node_position = (0, 0, 0), node_orientation = (1, 0, 0, 0)\<rparr>"

datatype PlanningSceneRender = PlanningSceneRender

datatype DisplayContext = DisplayContext

record 'f StampedPose =
  pose_origin :: "'f \<times> 'f \<times> 'f"
  pose_rotation :: "'f \<times> 'f \<times> 'f \<times> 'f"
  pose_stamp :: Time
  pose_frame_id :: string

subsection \<open>Faults, events and calls\<close>

datatype pointer =
    PTR_planning_scene_monitor
  | PTR_planning_scene
  | PTR_kinematic_model
  | PTR_planning_scene_robot
  | PTR_planning_scene_node
  | PTR_planning_scene_geometry_node
  | PTR_robot
  | PTR_context
  | PTR_scene_node

datatype fault = NullDereference pointer | Uncaught cpp_exception

text \<open>The arguments of one \<^verbatim>\<open>PlanningSceneRender::renderPlanningScene\<close> call: the scene,
  the two colours, the scene alpha and the robot alpha.\<close>

datatype 'f render_call =
  RenderCall "PlanningScene option" rviz_Color rviz_Color 'f 'f

datatype 'f event =
    Display_onInitialize
  | Display_reset
  | Display_update 'f 'f
  | Display_onEnable
  | Display_onDisable
  | Display_fixedFrameChanged
  | Display_load Config
  | Display_save Config
  | SetStatus StatusLevel string string
  | ROS_ERROR string
  | LockScene
  | UnlockScene
  | AddUpdateCallback callback
  | StartSceneMonitor string
  | StopSceneMonitor
  | RenderPlanningScene "'f render_call"
  | Robot_update KinematicState

text \<open>A call yields the events it emitted and either a fault or its result. The events
  emitted before a fault are kept.\<close>

type_synonym ('f, 'a) call = "'f event list \<times> (fault + 'a)"

definition returns :: "'a \<Rightarrow> ('f, 'a) call" where
  "returns a = ([], Inr a)"

definition crash :: "fault \<Rightarrow> ('f, 'a) call" where
  "crash f = ([], Inl f)"

definition emit :: "'f event \<Rightarrow> 'a \<Rightarrow> ('f, 'a) call" where
  "emit e a = ([e], Inr a)"

definition and_then :: "('f, 'a) call \<Rightarrow> ('a \<Rightarrow> ('f, 'b) call) \<Rightarrow> ('f, 'b) call" where
  "and_then c k =
     (case c of
        (evs, Inl f) \<Rightarrow> (evs, Inl f)
      | (evs, Inr a) \<Rightarrow> (case k a of (evs', r) \<Rightarrow> (evs @ evs', r)))"

definition deref :: "pointer \<Rightarrow> 'a option \<Rightarrow> ('a \<Rightarrow> ('f, 'b) call) \<Rightarrow> ('f, 'b) call" where
  "deref p x k = (case x of None \<Rightarrow> crash (NullDereference p) | Some a \<Rightarrow> k a)"

subsection \<open>What the host and the collaborators decide\<close>

text \<open>The first five fields are what the display inherits from \<^verbatim>\<open>rviz::Display\<close>:
  \<^verbatim>\<open>isEnabled()\<close>, \<^verbatim>\<open>getNameStd()\<close>, \<^verbatim>\<open>fixed_frame_\<close>, and the pointers \<^verbatim>\<open>context_\<close>
  (\<open>display_context\<close> here) and \<^verbatim>\<open>scene_node_\<close>. The host sets both pointers when it
  initialises the display, before it calls \<^verbatim>\<open>onInitialize\<close>; until then they are null,
  \<open>None\<close> here. The objects reached through a non-null \<^verbatim>\<open>context_\<close> (the frame manager,
  the tf client) are the host's and are taken to exist.\<close>

record 'f environment =
  isEnabled :: bool
  getNameStd :: string
  fixed_frame :: string
  display_context :: "DisplayContext option"
  scene_node :: "'f SceneNode option"
  new_PlanningSceneMonitor :: "string \<Rightarrow> string \<Rightarrow> PlanningSceneMonitor"
  renderer_throws :: "'f render_call \<Rightarrow> cpp_exception option"
  getLatestCommonTime :: "string \<Rightarrow> string \<Rightarrow> Time option"
  canTransform :: "string \<Rightarrow> string \<Rightarrow> Time \<Rightarrow> bool"
  transformPose :: "string \<Rightarrow> 'f StampedPose \<Rightarrow> cpp_exception + 'f StampedPose"

subsection \<open>The display\<close>

record 'f PlanningSceneDisplay =
  planning_scene_monitor :: "PlanningSceneMonitor option"
  planning_scene_render :: "PlanningSceneRender option"
  planning_scene_robot :: "'f Robot option"
  planning_scene_node :: "'f SceneNode option"
  planning_scene_geometry_node :: "'f SceneNode option"
  current_scene_time :: 'f
  planning_scene_needs_render :: bool
  robot_description_property :: "string Property"
  planning_scene_topic_property :: "string Property"
  scene_name_property :: "string Property"
  scene_enabled_property :: "bool Property"
  scene_alpha_property :: "'f FloatProperty"
  scene_color_property :: "QColor Property"
  root_link_name_property :: "string Property"
  scene_robot_enabled_property :: "bool Property"
  robot_alpha_property :: "'f FloatProperty"
  attached_body_color_property :: "QColor Property"
  scene_display_time_property :: "'f FloatProperty"

text \<open>The members keep their names without the trailing underscore, which a name
  cannot end with here: \<open>planning_scene_monitor\<close> is \<^verbatim>\<open>planning_scene_monitor_\<close>.

  The constructor. \<^verbatim>\<open>planning_scene_robot_\<close> is initialised to \<^verbatim>\<open>NULL\<close>; the two
  scene nodes are left unassigned until \<^verbatim>\<open>onInitialize\<close>, which is \<open>None\<close> here as well.
  The float literals \<^verbatim>\<open>0.9f\<close>, \<^verbatim>\<open>0.5f\<close>, \<^verbatim>\<open>0.2f\<close> and \<^verbatim>\<open>0.0001\<close> are written as
  quotients.\<close>

definition PlanningSceneDisplay :: "'f::{zero,numeral,inverse} PlanningSceneDisplay" where
  "PlanningSceneDisplay =
     \<lparr>planning_scene_monitor = None,
      planning_scene_render = None,
      planning_scene_robot = None,
      planning_scene_node = None,
      planning_scene_geometry_node = None,
      current_scene_time = 0,
      planning_scene_needs_render = True,
      robot_description_property =
        new_Property ''robot_description'' SLOT_changedRobotDescription,
      planning_scene_topic_property =
        new_Property ''planning_scene'' SLOT_changedPlanningSceneTopic,
      scene_name_property =
        (new_Property ''(noname)'' SLOT_changedSceneName)\<lparr>prop_should_be_saved := False\<rparr>,
      scene_enabled_property = new_Property True SLOT_changedSceneEnabled,
      scene_alpha_property =
        setMax 1 (setMin 0 (new_FloatProperty (9 / 10) SLOT_changedSceneAlpha)),
      scene_color_property = new_Property (QColor 50 230 50) SLOT_changedSceneColor,
      root_link_name_property =
        (new_Property [] SLOT_changedRootLinkName)\<lparr>prop_read_only := True\<rparr>,
      scene_robot_enabled_property = new_Property True SLOT_changedSceneRobotEnabled,
      robot_alpha_property =
        setMax 1 (setMin 0 (new_FloatProperty (5 / 10) SLOT_changedRobotSceneAlpha)),
      attached_body_color_property =
        new_Property (QColor 150 50 150) SLOT_changedAttachedBodyColor,
      scene_display_time_property =
        setMin (1 / 10000) (new_FloatProperty (2 / 10) SLOT_changedSceneDisplayTime)\<rparr>"

subsection \<open>Accessors\<close>

definition getPlanningSceneMonitor :: "'f PlanningSceneDisplay \<Rightarrow> PlanningSceneMonitor option" where
  "getPlanningSceneMonitor d = planning_scene_monitor d"

definition getKinematicModel :: "'f PlanningSceneDisplay \<Rightarrow> KinematicModel option" where
  "getKinematicModel d =
     (case planning_scene_monitor d of
        Some m \<Rightarrow> monitor_kinematic_model m
      | None \<Rightarrow> None)"

definition getPlanningScene :: "'f PlanningSceneDisplay \<Rightarrow> PlanningScene option" where
  "getPlanningScene d =
     (case planning_scene_monitor d of
        Some m \<Rightarrow> monitor_planning_scene m
      | None \<Rightarrow> None)"

subsection \<open>Link colours\<close>

text \<open>The forms that take a \<^verbatim>\<open>rviz::Robot*\<close>: the argument is the pointer, the result is
  the pointer with the robot it points to as the call left it.\<close>

definition setLinkColor_robot ::
  "'f Robot option \<Rightarrow> string \<Rightarrow> QColor \<Rightarrow> ('f, 'f Robot option) call" where
  "setLinkColor_robot robot link_name color =
     deref PTR_robot robot (\<lambda>r.
       case getLink r link_name of
         Some link \<Rightarrow>
           returns (Some (r\<lparr>robot_links := (robot_links r)(link_name :=
             Some (link\<lparr>link_color :=
               Some (Color (redF color) (greenF color) (blueF color))\<rparr>))\<rparr>))
       | None \<Rightarrow> returns (Some r))"

definition unsetLinkColor_robot ::
  "'f Robot option \<Rightarrow> string \<Rightarrow> ('f, 'f Robot option) call" where
  "unsetLinkColor_robot robot link_name =
     deref PTR_robot robot (\<lambda>r.
       case getLink r link_name of
         Some link \<Rightarrow>
           returns (Some (r\<lparr>robot_links := (robot_links r)(link_name :=
             Some (link\<lparr>link_color := None\<rparr>))\<rparr>))
       | None \<Rightarrow> returns (Some r))"

definition setLinkColor ::
  "string \<Rightarrow> QColor \<Rightarrow> 'f PlanningSceneDisplay \<Rightarrow> ('f, 'f PlanningSceneDisplay) call" where
  "setLinkColor link_name color d =
     and_then (setLinkColor_robot (planning_scene_robot d) link_name color)
       (\<lambda>robot. returns (d\<lparr>planning_scene_robot := robot\<rparr>))"

definition unsetLinkColor ::
  "string \<Rightarrow> 'f PlanningSceneDisplay \<Rightarrow> ('f, 'f PlanningSceneDisplay) call" where
  "unsetLinkColor link_name d =
     and_then (unsetLinkColor_robot (planning_scene_robot d) link_name)
       (\<lambda>robot. returns (d\<lparr>planning_scene_robot := robot\<rparr>))"

text \<open>The loops \<^verbatim>\<open>for (i = 0; i < links.size(); ++i)\<close> over the link names.\<close>

primrec setLinkColor_each ::
  "'f Robot option \<Rightarrow> string list \<Rightarrow> QColor \<Rightarrow> ('f, 'f Robot option) call" where
  "setLinkColor_each robot [] color = returns robot"
| "setLinkColor_each robot (l # ls) color =
     and_then (setLinkColor_robot robot l color) (\<lambda>robot'. setLinkColor_each robot' ls color)"

primrec unsetLinkColor_each ::
  "'f Robot option \<Rightarrow> string list \<Rightarrow> ('f, 'f Robot option) call" where
  "unsetLinkColor_each robot [] = returns robot"
| "unsetLinkColor_each robot (l # ls) =
     and_then (unsetLinkColor_robot robot l) (\<lambda>robot'. unsetLinkColor_each robot' ls)"

definition setGroupColor ::
  "'f PlanningSceneDisplay \<Rightarrow> 'f Robot option \<Rightarrow> string \<Rightarrow> QColor \<Rightarrow> ('f, 'f Robot option) call" where
  "setGroupColor d robot group_name color =
     (if getPlanningScene d \<noteq> None then
        deref PTR_kinematic_model (getKinematicModel d) (\<lambda>km.
          case joint_model_group km group_name of
            Some jmg \<Rightarrow> setLinkColor_each robot (link_model_names jmg) color
          | None \<Rightarrow> returns robot)
      else returns robot)"

definition unsetAllColors ::
  "'f PlanningSceneDisplay \<Rightarrow> 'f Robot option \<Rightarrow> ('f, 'f Robot option) call" where
  "unsetAllColors d robot =
     (if getPlanningScene d \<noteq> None then
        deref PTR_kinematic_model (getKinematicModel d) (\<lambda>km.
          unsetLinkColor_each robot (link_model_names_with_collision_geometry km))
      else returns robot)"

definition unsetGroupColor ::
  "'f PlanningSceneDisplay \<Rightarrow> 'f Robot option \<Rightarrow> string \<Rightarrow> ('f, 'f Robot option) call" where
  "unsetGroupColor d robot group_name =
     (if getPlanningScene d \<noteq> None then
        deref PTR_kinematic_model (getKinematicModel d) (\<lambda>km.
          case joint_model_group km group_name of
            Some jmg \<Rightarrow> unsetLinkColor_each robot (link_model_names jmg)
          | None \<Rightarrow> returns robot)
      else returns robot)"

subsection \<open>Rendering\<close>

definition queueRenderSceneGeometry :: "'f PlanningSceneDisplay \<Rightarrow> 'f PlanningSceneDisplay" where
  "queueRenderSceneGeometry d = d\<lparr>planning_scene_needs_render := True\<rparr>"

definition changedAttachedBodyColor :: "'f PlanningSceneDisplay \<Rightarrow> 'f PlanningSceneDisplay" where
  "changedAttachedBodyColor d = queueRenderSceneGeometry d"

definition changedSceneColor :: "'f PlanningSceneDisplay \<Rightarrow> 'f PlanningSceneDisplay" where
  "changedSceneColor d = queueRenderSceneGeometry d"

definition changedSceneAlpha :: "'f PlanningSceneDisplay \<Rightarrow> 'f PlanningSceneDisplay" where
  "changedSceneAlpha d = queueRenderSceneGeometry d"

text \<open>The call into the renderer sits in \<^verbatim>\<open>try { ... } catch(...) { ROS_ERROR(...); }\<close>:
  the call is issued, and whatever it throws is answered by the error message alone.\<close>

definition try_render ::
  "'f environment \<Rightarrow> 'f render_call \<Rightarrow> 'a \<Rightarrow> ('f, 'a) call" where
  "try_render env rc a =
     and_then (emit (RenderPlanningScene rc) a) (\<lambda>a.
       case renderer_throws env rc of
         None \<Rightarrow> returns a
       | Some x \<Rightarrow> emit (ROS_ERROR ''Exception thrown while rendering planning scene'') a)"

definition renderPlanningScene ::
  "'f environment \<Rightarrow> 'f PlanningSceneDisplay \<Rightarrow> ('f, 'f PlanningSceneDisplay) call" where
  "renderPlanningScene env d =
     (if planning_scene_render d \<noteq> None \<and> planning_scene_needs_render d then
        let color = prop_value (scene_color_property d);
            env_color = Color (redF color) (greenF color) (blueF color);
            color = prop_value (attached_body_color_property d);
            attached_color = Color (redF color) (greenF color) (blueF color)
        in
        deref PTR_planning_scene_monitor (planning_scene_monitor d) (\<lambda>_.
        and_then (emit LockScene d) (\<lambda>d.
        and_then (try_render env
                   (RenderCall (getPlanningScene d) env_color attached_color
                      (prop_value (scene_alpha_property d))
                      (prop_value (robot_alpha_property d))) d) (\<lambda>d.
        and_then (returns (d\<lparr>planning_scene_needs_render := False\<rparr>)) (\<lambda>d.
        deref PTR_planning_scene_monitor (planning_scene_monitor d) (\<lambda>_.
        and_then (emit UnlockScene d) (\<lambda>d.
        deref PTR_planning_scene_geometry_node (planning_scene_geometry_node d) (\<lambda>g.
        returns (d\<lparr>planning_scene_geometry_node :=
          Some (g\<lparr>node_visible := prop_value (scene_enabled_property d)\<rparr>)\<rparr>))))))))
      else returns d)"

subsection \<open>Loading the robot model\<close>

text \<open>\<^verbatim>\<open>setStdString\<close> stores the string. The host then calls the slot of the property
  (\<^verbatim>\<open>changedSceneName\<close>, \<^verbatim>\<open>changedRootLinkName\<close>), which writes the same name back to
  where it was just read from; that call changes nothing and is left to the host.\<close>

definition onRobotModelLoaded :: "'f PlanningSceneDisplay \<Rightarrow> ('f, 'f PlanningSceneDisplay) call" where
  "onRobotModelLoaded d =
     deref PTR_kinematic_model (getKinematicModel d) (\<lambda>km.
     deref PTR_planning_scene_robot (planning_scene_robot d) (\<lambda>r.
     and_then (returns (d\<lparr>planning_scene_robot := Some (Robot_load (model_urdf km) r)\<rparr>)) (\<lambda>d.
     deref PTR_planning_scene (getPlanningScene d) (\<lambda>s.
     deref PTR_planning_scene_robot (planning_scene_robot d) (\<lambda>_.
     and_then (emit (Robot_update (scene_current_state s)) d) (\<lambda>d.
     deref PTR_planning_scene (getPlanningScene d) (\<lambda>s.
     and_then (returns (d\<lparr>scene_name_property :=
                 (scene_name_property d)\<lparr>prop_value := scene_name s\<rparr>\<rparr>)) (\<lambda>d.
     deref PTR_kinematic_model (getKinematicModel d) (\<lambda>km.
     returns (d\<lparr>root_link_name_property :=
       (root_link_name_property d)\<lparr>prop_value := root_link_name km\<rparr>\<rparr>))))))))))"

text \<open>The arguments of the monitor's constructor are evaluated before the monitor is
  constructed; one of them is \<^verbatim>\<open>context_->getFrameManager()->getTFClientPtr()\<close>, so a
  null \<^verbatim>\<open>context_\<close> is dereferenced after the two resets and before anything else. The
  renderer's constructor is handed \<^verbatim>\<open>context_\<close> and the two pointers as they are.\<close>

definition loadRobotModel ::
  "'f environment \<Rightarrow> 'f PlanningSceneDisplay \<Rightarrow> ('f, 'f PlanningSceneDisplay) call" where
  "loadRobotModel env d =
     and_then (returns (d\<lparr>planning_scene_render := None\<rparr>)) (\<lambda>d.
     and_then (returns (d\<lparr>planning_scene_monitor := None\<rparr>)) (\<lambda>d.
     deref PTR_context (display_context env) (\<lambda>_.
     and_then (returns (d\<lparr>planning_scene_monitor :=
                 Some (new_PlanningSceneMonitor env
                         (prop_value (robot_description_property d))
                         (getNameStd env @ ''_planning_scene_monitor''))\<rparr>)) (\<lambda>d.
     if (case getPlanningScene d of Some s \<Rightarrow> scene_configured s | None \<Rightarrow> False) then
       and_then (emit (AddUpdateCallback CB_sceneMonitorReceivedUpdate) d) (\<lambda>d.
       and_then (emit (StartSceneMonitor (prop_value (planning_scene_topic_property d))) d) (\<lambda>d.
       and_then (returns (d\<lparr>planning_scene_render := Some PlanningSceneRender\<rparr>)) (\<lambda>d.
       and_then (onRobotModelLoaded d) (\<lambda>d.
       emit (SetStatus Ok ''PlanningScene'' ''Planning Scene Loaded Successfully'') d))))
     else
       and_then (returns (d\<lparr>planning_scene_monitor := None\<rparr>)) (\<lambda>d.
       emit (SetStatus Error ''PlanningScene'' ''No Planning Scene Loaded'') d)))))"

definition onSceneMonitorReceivedUpdate ::
  "SceneUpdateType \<Rightarrow> 'f PlanningSceneDisplay \<Rightarrow> ('f, 'f PlanningSceneDisplay) call" where
  "onSceneMonitorReceivedUpdate update_type d =
     deref PTR_planning_scene (getPlanningScene d) (\<lambda>s.
     and_then (returns (d\<lparr>scene_name_property :=
                 (scene_name_property d)\<lparr>prop_value := scene_name s\<rparr>\<rparr>)) (\<lambda>d.
     deref PTR_kinematic_model (getKinematicModel d) (\<lambda>km.
     and_then (returns (d\<lparr>root_link_name_property :=
                 (root_link_name_property d)\<lparr>prop_value := root_link_name km\<rparr>\<rparr>)) (\<lambda>d.
     returns (d\<lparr>planning_scene_needs_render := True\<rparr>)))))"

definition sceneMonitorReceivedUpdate ::
  "SceneUpdateType \<Rightarrow> 'f PlanningSceneDisplay \<Rightarrow> ('f, 'f PlanningSceneDisplay) call" where
  "sceneMonitorReceivedUpdate update_type d = onSceneMonitorReceivedUpdate update_type d"

subsection \<open>Life cycle\<close>

text \<open>\<^verbatim>\<open>onInitialize\<close> makes its first node as a child of the inherited \<^verbatim>\<open>scene_node_\<close>,
  which it dereferences, and hands \<^verbatim>\<open>context_\<close> to the robot's constructor as it is.\<close>

definition onInitialize ::
  "'f::{zero,one} environment \<Rightarrow> 'f PlanningSceneDisplay \<Rightarrow> ('f, 'f PlanningSceneDisplay) call" where
  "onInitialize env d =
     and_then (emit Display_onInitialize d) (\<lambda>d.
     deref PTR_scene_node (scene_node env) (\<lambda>_.
     and_then (returns (d\<lparr>planning_scene_node := Some createChildSceneNode\<rparr>)) (\<lambda>d.
     and_then (returns (d\<lparr>planning_scene_geometry_node :=
                 Some (createChildSceneNode
                   \<lparr>node_visible := prop_value (scene_enabled_property d)\<rparr>)\<rparr>)) (\<lambda>d.
     returns (d\<lparr>planning_scene_robot :=
       Some (new_Robot
         \<lparr>robot_collision_visible := False,
          robot_visual_visible := True,
          robot_visible := prop_value (scene_robot_enabled_property d)\<rparr>)\<rparr>)))))"

definition reset ::
  "'f environment \<Rightarrow> 'f PlanningSceneDisplay \<Rightarrow> ('f, 'f PlanningSceneDisplay) call" where
  "reset env d =
     and_then (returns (d\<lparr>planning_scene_render := None\<rparr>)) (\<lambda>d.
     deref PTR_planning_scene_robot (planning_scene_robot d) (\<lambda>r.
     and_then (returns (d\<lparr>planning_scene_robot := Some (Robot_clear r)\<rparr>)) (\<lambda>d.
     and_then (loadRobotModel env d) (\<lambda>d.
     and_then (emit Display_reset d) (\<lambda>d.
     deref PTR_planning_scene_robot (planning_scene_robot d) (\<lambda>r.
     returns (d\<lparr>planning_scene_robot :=
       Some (r\<lparr>robot_visible := prop_value (scene_robot_enabled_property d)\<rparr>)\<rparr>)))))))"

text \<open>\<^verbatim>\<open>tf::Pose::getIdentity()\<close> has the origin \<open>(0, 0, 0)\<close> and the rotation
  \<open>(x, y, z, w) = (0, 0, 0, 1)\<close>; \<^verbatim>\<open>Ogre::Quaternion\<close> takes \<open>(w, x, y, z)\<close>. The handler
  of the transform names \<^verbatim>\<open>tf::TransformException\<close> only, so any other exception
  leaves the function. Each of the three calls into tf goes through \<^verbatim>\<open>context_\<close>, which
  is dereferenced before the arguments of the call are evaluated.\<close>

definition calculateOffsetPosition ::
  "'f::{zero,one} environment \<Rightarrow> 'f PlanningSceneDisplay \<Rightarrow> ('f, 'f PlanningSceneDisplay) call" where
  "calculateOffsetPosition env d =
     (if planning_scene_monitor d = None then returns d
      else
        deref PTR_context (display_context env) (\<lambda>_.
        deref PTR_planning_scene (getPlanningScene d) (\<lambda>s.
        case getLatestCommonTime env (fixed_frame env) (scene_planning_frame s) of
          None \<Rightarrow> returns d
        | Some stamp \<Rightarrow>
            deref PTR_planning_scene (getPlanningScene d) (\<lambda>s.
            and_then (returns \<lparr>pose_origin = (0, 0, 0), pose_rotation = (0, 0, 0, 1),
                         pose_stamp = stamp, pose_frame_id = scene_planning_frame s\<rparr>) (\<lambda>pose.
            deref PTR_context (display_context env) (\<lambda>_.
            deref PTR_planning_scene (getPlanningScene d) (\<lambda>s.
            and_then
              (if canTransform env (fixed_frame env) (scene_planning_frame s) stamp then
                 deref PTR_context (display_context env) (\<lambda>_.
                 case transformPose env (fixed_frame env) pose of
                    Inr pose' \<Rightarrow> returns pose'
                  | Inl (TransformException e) \<Rightarrow>
                      emit (ROS_ERROR (''Error transforming from frame '' @ [CHR 0x27]
                              @ pose_frame_id pose @ [CHR 0x27] @ '' to frame '' @ [CHR 0x27]
                              @ fixed_frame env @ [CHR 0x27])) pose
                  | Inl x \<Rightarrow> crash (Uncaught x))
               else returns pose) (\<lambda>pose.
            deref PTR_planning_scene_node (planning_scene_node d) (\<lambda>n.
            returns (d\<lparr>planning_scene_node := Some (n
              \<lparr>node_position := pose_origin pose,
               node_orientation :=
                 (case pose_rotation pose of (x, y, z, w) \<Rightarrow> (w, x, y, z))\<rparr>)\<rparr>))))))))))"

definition onEnable ::
  "'f::{zero,one} environment \<Rightarrow> 'f PlanningSceneDisplay \<Rightarrow> ('f, 'f PlanningSceneDisplay) call" where
  "onEnable env d =
     and_then (emit Display_onEnable d) (\<lambda>d.
     and_then (loadRobotModel env d) (\<lambda>d.
     deref PTR_planning_scene_robot (planning_scene_robot d) (\<lambda>r.
     and_then (returns (d\<lparr>planning_scene_robot :=
                 Some (r\<lparr>robot_visible := prop_value (scene_robot_enabled_property d)\<rparr>)\<rparr>)) (\<lambda>d.
     deref PTR_planning_scene_geometry_node (planning_scene_geometry_node d) (\<lambda>g.
     and_then (returns (d\<lparr>planning_scene_geometry_node :=
                 Some (g\<lparr>node_visible := prop_value (scene_enabled_property d)\<rparr>)\<rparr>)) (\<lambda>d.
     calculateOffsetPosition env d))))))"

definition onDisable :: "'f PlanningSceneDisplay \<Rightarrow> ('f, 'f PlanningSceneDisplay) call" where
  "onDisable d =
     and_then (if planning_scene_monitor d \<noteq> None then emit StopSceneMonitor d
               else returns d) (\<lambda>d.
     deref PTR_planning_scene_geometry_node (planning_scene_geometry_node d) (\<lambda>g.
     and_then (returns (d\<lparr>planning_scene_geometry_node :=
                 Some (g\<lparr>node_visible := False\<rparr>)\<rparr>)) (\<lambda>d.
     deref PTR_planning_scene_robot (planning_scene_robot d) (\<lambda>r.
     and_then (returns (d\<lparr>planning_scene_robot := Some (r\<lparr>robot_visible := False\<rparr>)\<rparr>)) (\<lambda>d.
     emit Display_onDisable d)))))"

definition update ::
  "'f::{zero,plus,ord} environment \<Rightarrow> 'f \<Rightarrow> 'f \<Rightarrow> 'f PlanningSceneDisplay
     \<Rightarrow> ('f, 'f PlanningSceneDisplay) call" where
  "update env wall_dt ros_dt d =
     and_then (emit (Display_update wall_dt ros_dt) d) (\<lambda>d.
     if planning_scene_monitor d = None then returns d
     else
       and_then (returns (d\<lparr>current_scene_time := current_scene_time d + wall_dt\<rparr>)) (\<lambda>d.
       if current_scene_time d > prop_value (scene_display_time_property d) then
         and_then (renderPlanningScene env d) (\<lambda>d.
         returns (d\<lparr>current_scene_time := 0\<rparr>))
       else returns d))"

definition load :: "Config \<Rightarrow> 'f PlanningSceneDisplay \<Rightarrow> ('f, 'f PlanningSceneDisplay) call" where
  "load config d = emit (Display_load config) d"

definition save :: "Config \<Rightarrow> 'f PlanningSceneDisplay \<Rightarrow> ('f, 'f PlanningSceneDisplay) call" where
  "save config d = emit (Display_save config) d"

definition fixedFrameChanged ::
  "'f::{zero,one} environment \<Rightarrow> 'f PlanningSceneDisplay \<Rightarrow> ('f, 'f PlanningSceneDisplay) call" where
  "fixedFrameChanged env d =
     and_then (emit Display_fixedFrameChanged d) (\<lambda>d. calculateOffsetPosition env d)"

subsection \<open>The remaining property handlers\<close>

definition changedRobotDescription ::
  "'f environment \<Rightarrow> 'f PlanningSceneDisplay \<Rightarrow> ('f, 'f PlanningSceneDisplay) call" where
  "changedRobotDescription env d = (if isEnabled env then reset env d else returns d)"

text \<open>\<^verbatim>\<open>getPlanningScene()->setName(...)\<close> writes to the scene the monitor holds.\<close>

definition PlanningScene_setName :: "string \<Rightarrow> 'f PlanningSceneDisplay \<Rightarrow> 'f PlanningSceneDisplay" where
  "PlanningScene_setName n d =
     d\<lparr>planning_scene_monitor :=
         map_option (\<lambda>m. m\<lparr>monitor_planning_scene :=
           map_option (\<lambda>s. s\<lparr>scene_name := n\<rparr>) (monitor_planning_scene m)\<rparr>)
           (planning_scene_monitor d)\<rparr>"

definition changedSceneName :: "'f PlanningSceneDisplay \<Rightarrow> 'f PlanningSceneDisplay" where
  "changedSceneName d =
     (if getPlanningScene d \<noteq> None
      then PlanningScene_setName (prop_value (scene_name_property d)) d
      else d)"

definition changedRootLinkName :: "'f PlanningSceneDisplay \<Rightarrow> ('f, 'f PlanningSceneDisplay) call" where
  "changedRootLinkName d =
     (if getPlanningScene d \<noteq> None then
        deref PTR_kinematic_model (getKinematicModel d) (\<lambda>km.
        returns (d\<lparr>root_link_name_property :=
          (root_link_name_property d)\<lparr>prop_value := root_link_name km\<rparr>\<rparr>))
      else returns d)"

definition changedRobotSceneAlpha :: "'f PlanningSceneDisplay \<Rightarrow> ('f, 'f PlanningSceneDisplay) call" where
  "changedRobotSceneAlpha d =
     deref PTR_planning_scene_robot (planning_scene_robot d) (\<lambda>r.
     returns (d\<lparr>planning_scene_robot :=
       Some (r\<lparr>robot_alpha := prop_value (robot_alpha_property d)\<rparr>)\<rparr>))"

definition changedPlanningSceneTopic :: "'f PlanningSceneDisplay \<Rightarrow> ('f, 'f PlanningSceneDisplay) call" where
  "changedPlanningSceneTopic d =
     (if planning_scene_monitor d \<noteq> None
      then emit (StartSceneMonitor (prop_value (planning_scene_topic_property d))) d
      else returns d)"

definition changedSceneDisplayTime :: "'f PlanningSceneDisplay \<Rightarrow> 'f PlanningSceneDisplay" where
  "changedSceneDisplayTime d = d"

definition changedSceneRobotEnabled ::
  "'f environment \<Rightarrow> 'f PlanningSceneDisplay \<Rightarrow> ('f, 'f PlanningSceneDisplay) call" where
  "changedSceneRobotEnabled env d =
     (if isEnabled env then
        deref PTR_planning_scene_robot (planning_scene_robot d) (\<lambda>r.
        returns (d\<lparr>planning_scene_robot :=
          Some (r\<lparr>robot_visible := prop_value (scene_robot_enabled_property d)\<rparr>)\<rparr>))
      else returns d)"

definition changedSceneEnabled :: "'f PlanningSceneDisplay \<Rightarrow> ('f, 'f PlanningSceneDisplay) call" where
  "changedSceneEnabled d =
     deref PTR_planning_scene_geometry_node (planning_scene_geometry_node d) (\<lambda>g.
     returns (d\<lparr>planning_scene_geometry_node :=
       Some (g\<lparr>node_visible := prop_value (scene_enabled_property d)\<rparr>)\<rparr>))"

subsection \<open>Slots and property edits\<close>

text \<open>The host calls the slot a property was constructed with whenever the user edits
  the property.\<close>

definition invoke_slot ::
  "'f environment \<Rightarrow> slot \<Rightarrow> 'f PlanningSceneDisplay \<Rightarrow> ('f, 'f PlanningSceneDisplay) call" where
  "invoke_slot env s d =
     (case s of
        SLOT_changedRobotDescription \<Rightarrow> changedRobotDescription env d
      | SLOT_changedPlanningSceneTopic \<Rightarrow> changedPlanningSceneTopic d
      | SLOT_changedSceneName \<Rightarrow> returns (changedSceneName d)
      | SLOT_changedSceneEnabled \<Rightarrow> changedSceneEnabled d
      | SLOT_changedSceneAlpha \<Rightarrow> returns (changedSceneAlpha d)
      | SLOT_changedSceneColor \<Rightarrow> returns (changedSceneColor d)
      | SLOT_changedRootLinkName \<Rightarrow> changedRootLinkName d
      | SLOT_changedSceneRobotEnabled \<Rightarrow> changedSceneRobotEnabled env d
      | SLOT_changedRobotSceneAlpha \<Rightarrow> changedRobotSceneAlpha d
      | SLOT_changedAttachedBodyColor \<Rightarrow> returns (changedAttachedBodyColor d)
      | SLOT_changedSceneDisplayTime \<Rightarrow> returns (changedSceneDisplayTime d))"

datatype 'f edit =
    Edit_robot_description string
  | Edit_planning_scene_topic string
  | Edit_scene_name string
  | Edit_scene_enabled bool
  | Edit_scene_alpha 'f
  | Edit_scene_color QColor
  | Edit_scene_robot_enabled bool
  | Edit_robot_alpha 'f
  | Edit_attached_body_color QColor
  | Edit_scene_display_time 'f

definition set_property :: "'f edit \<Rightarrow> 'f PlanningSceneDisplay \<Rightarrow> 'f PlanningSceneDisplay" where
  "set_property e d =
     (case e of
        Edit_robot_description v \<Rightarrow>
          d\<lparr>robot_description_property := (robot_description_property d)\<lparr>prop_value := v\<rparr>\<rparr>
      | Edit_planning_scene_topic v \<Rightarrow>
          d\<lparr>planning_scene_topic_property := (planning_scene_topic_property d)\<lparr>prop_value := v\<rparr>\<rparr>
      | Edit_scene_name v \<Rightarrow>
          d\<lparr>scene_name_property := (scene_name_property d)\<lparr>prop_value := v\<rparr>\<rparr>
      | Edit_scene_enabled v \<Rightarrow>
          d\<lparr>scene_enabled_property := (scene_enabled_property d)\<lparr>prop_value := v\<rparr>\<rparr>
      | Edit_scene_alpha v \<Rightarrow>
          d\<lparr>scene_alpha_property := (scene_alpha_property d)\<lparr>prop_value := v\<rparr>\<rparr>
      | Edit_scene_color v \<Rightarrow>
          d\<lparr>scene_color_property := (scene_color_property d)\<lparr>prop_value := v\<rparr>\<rparr>
      | Edit_scene_robot_enabled v \<Rightarrow>
          d\<lparr>scene_robot_enabled_property := (scene_robot_enabled_property d)\<lparr>prop_value := v\<rparr>\<rparr>
      | Edit_robot_alpha v \<Rightarrow>
          d\<lparr>robot_alpha_property := (robot_alpha_property d)\<lparr>prop_value := v\<rparr>\<rparr>
      | Edit_attached_body_color v \<Rightarrow>
          d\<lparr>attached_body_color_property := (attached_body_color_property d)\<lparr>prop_value := v\<rparr>\<rparr>
      | Edit_scene_display_time v \<Rightarrow>
          d\<lparr>scene_display_time_property := (scene_display_time_property d)\<lparr>prop_value := v\<rparr>\<rparr>)"

definition edited_slot :: "'f edit \<Rightarrow> 'f PlanningSceneDisplay \<Rightarrow> slot" where
  "edited_slot e d =
     (case e of
        Edit_robot_description v \<Rightarrow> prop_slot (robot_description_property d)
      | Edit_planning_scene_topic v \<Rightarrow> prop_slot (planning_scene_topic_property d)
      | Edit_scene_name v \<Rightarrow> prop_slot (scene_name_property d)
      | Edit_scene_enabled v \<Rightarrow> prop_slot (scene_enabled_property d)
      | Edit_scene_alpha v \<Rightarrow> prop_slot (scene_alpha_property d)
      | Edit_scene_color v \<Rightarrow> prop_slot (scene_color_property d)
      | Edit_scene_robot_enabled v \<Rightarrow> prop_slot (scene_robot_enabled_property d)
      | Edit_robot_alpha v \<Rightarrow> prop_slot (robot_alpha_property d)
      | Edit_attached_body_color v \<Rightarrow> prop_slot (attached_body_color_property d)
      | Edit_scene_display_time v \<Rightarrow> prop_slot (scene_display_time_property d))"

definition property_edited ::
  "'f environment \<Rightarrow> 'f edit \<Rightarrow> 'f PlanningSceneDisplay \<Rightarrow> ('f, 'f PlanningSceneDisplay) call" where
  "property_edited env e d = invoke_slot env (edited_slot e d) (set_property e d)"

subsection \<open>The operations of the display\<close>

text \<open>A robot argument of the forms that take a \<^verbatim>\<open>rviz::Robot*\<close>: the display's own
  robot, or some other pointer of the caller.\<close>

datatype 'f robot_arg = This_robot | Other_robot "'f Robot option"

definition with_robot ::
  "'f robot_arg \<Rightarrow> ('f Robot option \<Rightarrow> ('f, 'f Robot option) call) \<Rightarrow> 'f PlanningSceneDisplay
     \<Rightarrow> ('f, 'f PlanningSceneDisplay) call" where
  "with_robot a f d =
     (case a of
        This_robot \<Rightarrow>
          and_then (f (planning_scene_robot d)) (\<lambda>robot. returns (d\<lparr>planning_scene_robot := robot\<rparr>))
      | Other_robot robot \<Rightarrow> and_then (f robot) (\<lambda>_. returns d))"

datatype 'f operation =
    OP_onInitialize
  | OP_reset
  | OP_update 'f 'f
  | OP_load Config
  | OP_save Config
  | OP_onEnable
  | OP_onDisable
  | OP_fixedFrameChanged
  | OP_setLinkColor string QColor
  | OP_unsetLinkColor string
  | OP_queueRenderSceneGeometry
  | OP_property_edited "'f edit"
  | OP_slot slot
  | OP_sceneMonitorReceivedUpdate SceneUpdateType
  | OP_loadRobotModel
  | OP_onRobotModelLoaded
  | OP_calculateOffsetPosition
  | OP_renderPlanningScene
  | OP_setLinkColor_robot "'f robot_arg" string QColor
  | OP_unsetLinkColor_robot "'f robot_arg" string
  | OP_setGroupColor "'f robot_arg" string QColor
  | OP_unsetGroupColor "'f robot_arg" string
  | OP_unsetAllColors "'f robot_arg"

definition step ::
  "'f::{zero,one,plus,ord} environment \<Rightarrow> 'f operation \<Rightarrow> 'f PlanningSceneDisplay
     \<Rightarrow> ('f, 'f PlanningSceneDisplay) call" where
  "step env op d =
     (case op of
        OP_onInitialize \<Rightarrow> onInitialize env d
      | OP_reset \<Rightarrow> reset env d
      | OP_update wall_dt ros_dt \<Rightarrow> update env wall_dt ros_dt d
      | OP_load config \<Rightarrow> load config d
      | OP_save config \<Rightarrow> save config d
      | OP_onEnable \<Rightarrow> onEnable env d
      | OP_onDisable \<Rightarrow> onDisable d
      | OP_fixedFrameChanged \<Rightarrow> fixedFrameChanged env d
      | OP_setLinkColor link_name color \<Rightarrow> setLinkColor link_name color d
      | OP_unsetLinkColor link_name \<Rightarrow> unsetLinkColor link_name d
      | OP_queueRenderSceneGeometry \<Rightarrow> returns (queueRenderSceneGeometry d)
      | OP_property_edited e \<Rightarrow> property_edited env e d
      | OP_slot s \<Rightarrow> invoke_slot env s d
      | OP_sceneMonitorReceivedUpdate update_type \<Rightarrow> sceneMonitorReceivedUpdate update_type d
      | OP_loadRobotModel \<Rightarrow> loadRobotModel env d
      | OP_onRobotModelLoaded \<Rightarrow> onRobotModelLoaded d
      | OP_calculateOffsetPosition \<Rightarrow> calculateOffsetPosition env d
      | OP_renderPlanningScene \<Rightarrow> renderPlanningScene env d
      | OP_setLinkColor_robot a link_name color \<Rightarrow>
          with_robot a (\<lambda>robot. setLinkColor_robot robot link_name color) d
      | OP_unsetLinkColor_robot a link_name \<Rightarrow>
          with_robot a (\<lambda>robot. unsetLinkColor_robot robot link_name) d
      | OP_setGroupColor a group_name color \<Rightarrow>
          with_robot a (\<lambda>robot. setGroupColor d robot group_name color) d
      | OP_unsetGroupColor a group_name \<Rightarrow>
          with_robot a (\<lambda>robot. unsetGroupColor d robot group_name) d
      | OP_unsetAllColors a \<Rightarrow>
          with_robot a (\<lambda>robot. unsetAllColors d robot) d)"

text \<open>A run: operations one after the other, each with the environment it meets,
  stopping at the first fault.\<close>

primrec run ::
  "('f::{zero,one,plus,ord} environment \<times> 'f operation) list \<Rightarrow> 'f PlanningSceneDisplay
     \<Rightarrow> ('f, 'f PlanningSceneDisplay) call" where
  "run [] d = returns d"
| "run (x # xs) d = and_then (step (fst x) (snd x) d) (run xs)"

text \<open>The states a display can be in: the constructed display, every state an operation
  returns in, and every state that differs from such a state only in what a collaborator
  object holds (the monitor, the robot and the scene nodes are shared with their owners
  and with the renderer, which change them on their own).\<close>

inductive reachable :: "'f::{zero,numeral,inverse,ord} PlanningSceneDisplay \<Rightarrow> bool" where
  constructed: "reachable PlanningSceneDisplay"
| operation: "reachable d \<Longrightarrow> step env op d = (evs, Inr d') \<Longrightarrow> reachable d'"
| monitor_changed:
    "reachable d \<Longrightarrow> planning_scene_monitor d = Some m
       \<Longrightarrow> reachable (d\<lparr>planning_scene_monitor := Some m'\<rparr>)"
| robot_changed:
    "reachable d \<Longrightarrow> planning_scene_robot d = Some r
       \<Longrightarrow> reachable (d\<lparr>planning_scene_robot := Some r'\<rparr>)"
| node_changed:
    "reachable d \<Longrightarrow> planning_scene_node d = Some n
       \<Longrightarrow> reachable (d\<lparr>planning_scene_node := Some n'\<rparr>)"
| geometry_node_changed:
    "reachable d \<Longrightarrow> planning_scene_geometry_node d = Some g
       \<Longrightarrow> reachable (d\<lparr>planning_scene_geometry_node := Some g'\<rparr>)"

subsection \<open>Reading a trace\<close>

text \<open>\<open>lock_after held evs\<close>: whether the scene lock is held after the events, given
  whether it was held before. \<open>renders_locked held evs\<close>: every call into the renderer
  in \<open>evs\<close> is issued while the lock is held.\<close>

fun lock_after :: "bool \<Rightarrow> 'f event list \<Rightarrow> bool" where
  "lock_after held [] = held"
| "lock_after held (LockScene # evs) = lock_after True evs"
| "lock_after held (UnlockScene # evs) = lock_after False evs"
| "lock_after held (e # evs) = lock_after held evs"

fun renders_locked :: "bool \<Rightarrow> 'f event list \<Rightarrow> bool" where
  "renders_locked held [] = True"
| "renders_locked held (LockScene # evs) = renders_locked True evs"
| "renders_locked held (UnlockScene # evs) = renders_locked False evs"
| "renders_locked held (RenderPlanningScene rc # evs) = (held \<and> renders_locked held evs)"
| "renders_locked held (e # evs) = renders_locked held evs"

definition is_render :: "'f event \<Rightarrow> bool" where
  "is_render e = (case e of RenderPlanningScene rc \<Rightarrow> True | _ \<Rightarrow> False)"

text \<open>The arguments \<^verbatim>\<open>renderPlanningScene\<close> hands to the renderer in state \<open>d\<close>.\<close>

definition render_arguments :: "'f PlanningSceneDisplay \<Rightarrow> 'f render_call" where
  "render_arguments d =
     RenderCall (getPlanningScene d)
       (Color (redF (prop_value (scene_color_property d)))
              (greenF (prop_value (scene_color_property d)))
              (blueF (prop_value (scene_color_property d))))
       (Color (redF (prop_value (attached_body_color_property d)))
              (greenF (prop_value (attached_body_color_property d)))
              (blueF (prop_value (attached_body_color_property d))))
       (prop_value (scene_alpha_property d))
       (prop_value (robot_alpha_property d))"

subsection \<open>A concrete setting\<close>

text \<open>A robot with two links and one group, a monitor that holds a configured scene
  for it, and an environment in which the renderer returns normally and tf has no
  common time, for a display the host has initialised. Floats are rationals here.\<close>

definition example_scene :: PlanningScene where
  "example_scene =
     \<lparr>scene_name = ''demo'', scene_configured = True, scene_planning_frame = ''/odom'',
      scene_current_state = KinematicState 0\<rparr>"

definition example_model :: KinematicModel where
  "example_model =
     \<lparr>root_link_name = ''base_link'',
      model_urdf = URDF [''base_link'', ''arm_link''],
      joint_model_group =
        (\<lambda>g. if g = ''arm'' then Some \<lparr>link_model_names = [''arm_link'']\<rparr> else None),
      link_model_names_with_collision_geometry = [''base_link'', ''arm_link'']\<rparr>"

definition example_monitor :: PlanningSceneMonitor where
  "example_monitor =
     \<lparr>monitor_planning_scene = Some example_scene,
      monitor_kinematic_model = Some example_model\<rparr>"

definition example_env :: "rat environment" where
  "example_env =
     \<lparr>isEnabled = True, getNameStd = ''PlanningScene'', fixed_frame = ''/map'',
      display_context = Some DisplayContext, scene_node = Some createChildSceneNode,
      new_PlanningSceneMonitor = (\<lambda>_ _. example_monitor),
      renderer_throws = (\<lambda>_. None),
      getLatestCommonTime = (\<lambda>_ _. None),
      canTransform = (\<lambda>_ _ _. False),
      transformPose = (\<lambda>_ pose. Inr pose)\<rparr>"

definition throwing_env :: "rat environment" where
  "throwing_env = example_env\<lparr>renderer_throws := (\<lambda>_. Some (OtherException ''bad_alloc''))\<rparr>"

definition unconfigured_env :: "rat environment" where
  "unconfigured_env =
     example_env\<lparr>new_PlanningSceneMonitor :=
       (\<lambda>_ _. \<lparr>monitor_planning_scene = None, monitor_kinematic_model = None\<rparr>)\<rparr>"

text \<open>A display the host has not initialised, and a monitor constructor that provides
  a configured scene without a kinematic model.\<close>

definition uninitialised_env :: "rat environment" where
  "uninitialised_env = example_env\<lparr>display_context := None, scene_node := None\<rparr>"

definition modelless_env :: "rat environment" where
  "modelless_env =
     example_env\<lparr>new_PlanningSceneMonitor :=
       (\<lambda>_ _. \<lparr>monitor_planning_scene = Some example_scene, monitor_kinematic_model = None\<rparr>)\<rparr>"

definition example_robot :: "rat Robot" where
  "example_robot =
     Robot_load (URDF [''base_link'', ''arm_link''])
       (new_Robot\<lparr>robot_collision_visible := False, robot_visual_visible := True,
                  robot_visible := True\<rparr>)"

text \<open>The display after \<^verbatim>\<open>onInitialize\<close> and \<^verbatim>\<open>onEnable\<close> in that environment.\<close>

definition loaded_display :: "rat PlanningSceneDisplay" where
  "loaded_display =
     PlanningSceneDisplay
       \<lparr>planning_scene_monitor := Some example_monitor,
        planning_scene_render := Some PlanningSceneRender,
        planning_scene_robot :=
          Some example_robot,
        planning_scene_node := Some createChildSceneNode,
        planning_scene_geometry_node := Some (createChildSceneNode\<lparr>node_visible := True\<rparr>),
        scene_name_property :=
          (scene_name_property (PlanningSceneDisplay :: rat PlanningSceneDisplay))
            \<lparr>prop_value := ''demo''\<rparr>,
        root_link_name_property :=
          (root_link_name_property (PlanningSceneDisplay :: rat PlanningSceneDisplay))
            \<lparr>prop_value := ''base_link''\<rparr>\<rparr>"

subsection \<open>Notions used in the statements\<close>

text \<open>The scene monitor that \<^verbatim>\<open>loadRobotModel\<close> constructs in state \<open>d\<close>.\<close>

definition fresh_monitor :: "'f environment \<Rightarrow> 'f PlanningSceneDisplay \<Rightarrow> PlanningSceneMonitor" where
  "fresh_monitor env d =
     new_PlanningSceneMonitor env (prop_value (robot_description_property d))
       (getNameStd env @ ''_planning_scene_monitor'')"

text \<open>The pointers of the display fit together: a renderer is held only together with
  a monitor and a robot, and a robot only together with the two scene nodes.\<close>

definition pointers_consistent :: "'f PlanningSceneDisplay \<Rightarrow> bool" where
  "pointers_consistent d =
     ((planning_scene_render d \<noteq> None \<longrightarrow>
         planning_scene_monitor d \<noteq> None \<and> planning_scene_robot d \<noteq> None) \<and>
      (planning_scene_robot d \<noteq> None \<longrightarrow>
         planning_scene_geometry_node d \<noteq> None \<and> planning_scene_node d \<noteq> None))"

text \<open>Every property still has the slot the constructor gave it.\<close>

definition slots_as_constructed :: "'f PlanningSceneDisplay \<Rightarrow> bool" where
  "slots_as_constructed d =
     (prop_slot (robot_description_property d) = SLOT_changedRobotDescription \<and>
      prop_slot (planning_scene_topic_property d) = SLOT_changedPlanningSceneTopic \<and>
      prop_slot (scene_name_property d) = SLOT_changedSceneName \<and>
      prop_slot (scene_enabled_property d) = SLOT_changedSceneEnabled \<and>
      prop_slot (scene_alpha_property d) = SLOT_changedSceneAlpha \<and>
      prop_slot (scene_color_property d) = SLOT_changedSceneColor \<and>
      prop_slot (root_link_name_property d) = SLOT_changedRootLinkName \<and>
      prop_slot (scene_robot_enabled_property d) = SLOT_changedSceneRobotEnabled \<and>
      prop_slot (robot_alpha_property d) = SLOT_changedRobotSceneAlpha \<and>
      prop_slot (attached_body_color_property d) = SLOT_changedAttachedBodyColor \<and>
      prop_slot (scene_display_time_property d) = SLOT_changedSceneDisplayTime)"

text \<open>\<open>calm evs\<close>: the trace renders only under the lock and ends with the lock
  released.\<close>

definition calm :: "'f event list \<Rightarrow> bool" where
  "calm evs = (renders_locked False evs \<and> \<not> lock_after False evs)"

text \<open>The faults that are a dereference of a null scene monitor, planning scene or
  kinematic model.\<close>

definition collaborator_fault :: "fault + 'a \<Rightarrow> bool" where
  "collaborator_fault r =
     (r = Inl (NullDereference PTR_planning_scene_monitor)
      \<or> r = Inl (NullDereference PTR_planning_scene)
      \<or> r = Inl (NullDereference PTR_kinematic_model))"

text \<open>The monitor, if the display holds one, provides a scene and a kinematic model; if
  it holds none, it holds no renderer either.\<close>

definition collaborators_present :: "'f PlanningSceneDisplay \<Rightarrow> bool" where
  "collaborators_present d =
     (case planning_scene_monitor d of
        None \<Rightarrow> planning_scene_render d = None
      | Some m \<Rightarrow> monitor_planning_scene m \<noteq> None \<and> monitor_kinematic_model m \<noteq> None)"

text \<open>What the display relies on in a scene monitor: one that is constructed with a
  configured scene has a kinematic model.\<close>

definition monitor_contract :: "'f environment \<Rightarrow> bool" where
  "monitor_contract env =
     (\<forall>description name.
        case monitor_planning_scene (new_PlanningSceneMonitor env description name) of
          None \<Rightarrow> True
        | Some s \<Rightarrow>
            scene_configured s \<longrightarrow>
              monitor_kinematic_model (new_PlanningSceneMonitor env description name) \<noteq> None)"

text \<open>The two member functions that dereference the scene and the model with no check
  at all.\<close>

definition unguarded :: "'f operation \<Rightarrow> bool" where
  "unguarded op =
     (case op of
        OP_sceneMonitorReceivedUpdate update_type \<Rightarrow> True
      | OP_onRobotModelLoaded \<Rightarrow> True
      | _ \<Rightarrow> False)"

text \<open>The property fields of the display, and its pointers.\<close>

definition configuration ::
  "'f PlanningSceneDisplay \<Rightarrow>
     string Property \<times> string Property \<times> string Property \<times> bool Property \<times> 'f FloatProperty
     \<times> QColor Property \<times> string Property \<times> bool Property \<times> 'f FloatProperty
     \<times> QColor Property \<times> 'f FloatProperty" where
  "configuration d =
     (robot_description_property d, planning_scene_topic_property d, scene_name_property d,
      scene_enabled_property d, scene_alpha_property d, scene_color_property d,
      root_link_name_property d, scene_robot_enabled_property d, robot_alpha_property d,
      attached_body_color_property d, scene_display_time_property d)"

definition collaborators ::
  "'f PlanningSceneDisplay \<Rightarrow>
     PlanningSceneMonitor option \<times> PlanningSceneRender option \<times> 'f Robot option
     \<times> 'f SceneNode option \<times> 'f SceneNode option" where
  "collaborators d =
     (planning_scene_monitor d, planning_scene_render d, planning_scene_robot d,
      planning_scene_node d, planning_scene_geometry_node d)"

text \<open>The slots and the operations that write \<^verbatim>\<open>planning_scene_needs_render_\<close>, and
  the operation that writes \<^verbatim>\<open>current_scene_time_\<close>.\<close>

definition flag_slot :: "slot \<Rightarrow> bool" where
  "flag_slot s =
     (s = SLOT_changedSceneAlpha \<or> s = SLOT_changedSceneColor
      \<or> s = SLOT_changedAttachedBodyColor)"

definition writes_current_scene_time :: "'f operation \<Rightarrow> bool" where
  "writes_current_scene_time op = (case op of OP_update wall_dt ros_dt \<Rightarrow> True | _ \<Rightarrow> False)"

definition writes_needs_render :: "'f operation \<Rightarrow> 'f PlanningSceneDisplay \<Rightarrow> bool" where
  "writes_needs_render op d =
     (case op of
        OP_queueRenderSceneGeometry \<Rightarrow> True
      | OP_property_edited e \<Rightarrow> flag_slot (edited_slot e d)
      | OP_slot s \<Rightarrow> flag_slot s
      | OP_sceneMonitorReceivedUpdate update_type \<Rightarrow> True
      | OP_renderPlanningScene \<Rightarrow> True
      | OP_update wall_dt ros_dt \<Rightarrow> True
      | _ \<Rightarrow> False)"

text \<open>For the proofs. \<open>post c Q\<close>: the events and the outcome of the call \<open>c\<close>
  satisfy \<open>Q\<close>. \<open>keeps P\<close> is the postcondition that a call which returns, returns in
  a state with \<open>P\<close>. \<open>silent c robot\<close>: a call on the robot pointer \<open>robot\<close> emits
  nothing and returns the pointer null exactly if it was null. \<open>safe\<close>: the outcome is
  no dereference of a null collaborator, and a state with the collaborators present if
  the call returns. \<open>bookkeeping_kept\<close>: the accumulated time and the needs-render flag
  are as before, unless written.\<close>

definition post :: "('f, 'a) call \<Rightarrow> ('f event list \<Rightarrow> fault + 'a \<Rightarrow> bool) \<Rightarrow> bool" where
  "post c Q = Q (fst c) (snd c)"

definition keeps :: "('a \<Rightarrow> bool) \<Rightarrow> 'f event list \<Rightarrow> fault + 'a \<Rightarrow> bool" where
  "keeps P evs r = (case r of Inl f \<Rightarrow> True | Inr a \<Rightarrow> P a)"

definition silent :: "('f, 'a option) call \<Rightarrow> 'a option \<Rightarrow> bool" where
  "silent c robot = (fst c = [] \<and> (\<forall>x. snd c = Inr x \<longrightarrow> (x = None) = (robot = None)))"

definition safe :: "'f event list \<Rightarrow> fault + 'f PlanningSceneDisplay \<Rightarrow> bool" where
  "safe evs r =
     (\<not> collaborator_fault r \<and> (case r of Inl f \<Rightarrow> True | Inr d \<Rightarrow> collaborators_present d))"

definition bookkeeping_kept ::
  "bool \<Rightarrow> bool \<Rightarrow> 'f PlanningSceneDisplay \<Rightarrow> 'f PlanningSceneDisplay \<Rightarrow> bool" where
  "bookkeeping_kept time_written flag_written d d' =
     ((time_written \<or> current_scene_time d' = current_scene_time d)
      \<and> (flag_written \<or> planning_scene_needs_render d' = planning_scene_needs_render d))"

section \<open>Properties\<close>

subsection \<open>Evaluating calls\<close>

lemma post_pair: "post (evs, r) Q = Q evs r"
  by (simp add: post_def)

lemma post_and_then:
  "post (and_then c k) Q =
     post c (\<lambda>evs r. case r of Inl f \<Rightarrow> Q evs (Inl f)
                      | Inr a \<Rightarrow> post (k a) (\<lambda>evs' r'. Q (evs @ evs') r'))"
  by (cases c) (auto simp: post_def and_then_def split: sum.splits prod.splits)

lemma post_deref:
  "post (deref p x k) Q =
     (case x of None \<Rightarrow> Q [] (Inl (NullDereference p)) | Some a \<Rightarrow> post (k a) Q)"
  by (simp add: deref_def post_def crash_def split: option.splits)

lemma and_then_Inl: "and_then (evs, Inl f) k = (evs, Inl f)"
  by (simp add: and_then_def)

lemma and_then_Inr:
  "and_then (evs, Inr a) k = (case k a of (evs', r) \<Rightarrow> (evs @ evs', r))"
  by (simp add: and_then_def)

lemmas call_simps = and_then_Inl and_then_Inr deref_def returns_def crash_def emit_def

lemmas post_simps = post_pair post_and_then post_deref returns_def crash_def emit_def

lemma post_weaken: "post c Q \<Longrightarrow> (\<And>evs r. Q evs r \<Longrightarrow> Q' evs r) \<Longrightarrow> post c Q'"
  by (simp add: post_def)

lemma fst_by_post: "post c (\<lambda>evs r. evs = X) \<Longrightarrow> fst c = X"
  by (simp add: post_def)

lemma snd_by_post: "post c (\<lambda>evs r. r = Y) \<Longrightarrow> snd c = Y"
  by (simp add: post_def)

lemma eq_by_post: "post c (\<lambda>evs r. evs = X \<and> r = Y) \<Longrightarrow> c = (X, Y)"
  by (cases c) (simp add: post_def)

lemmas example_defs =
  example_scene_def example_model_def example_monitor_def example_env_def throwing_env_def
  unconfigured_env_def loaded_display_def example_robot_def PlanningSceneDisplay_def
  new_Property_def
  new_FloatProperty_def setMin_def setMax_def new_Robot_def createChildSceneNode_def
  Robot_load_def Robot_clear_def

lemmas leaf_defs =
  onInitialize_def reset_def update_def load_def save_def onEnable_def onDisable_def
  fixedFrameChanged_def setLinkColor_def unsetLinkColor_def queueRenderSceneGeometry_def
  sceneMonitorReceivedUpdate_def
  onSceneMonitorReceivedUpdate_def loadRobotModel_def onRobotModelLoaded_def
  calculateOffsetPosition_def renderPlanningScene_def try_render_def
  changedRobotDescription_def changedPlanningSceneTopic_def changedSceneName_def
  changedSceneEnabled_def changedSceneAlpha_def changedSceneColor_def changedRootLinkName_def
  changedSceneRobotEnabled_def changedRobotSceneAlpha_def changedAttachedBodyColor_def
  changedSceneDisplayTime_def PlanningScene_setName_def
  getPlanningScene_def getKinematicModel_def
  setLinkColor_robot_def unsetLinkColor_robot_def Let_def

lemmas leaf_splits = option.splits sum.splits cpp_exception.splits

lemma keeps_simps [simp]: "keeps P evs (Inl f) = True" "keeps P evs (Inr a) = P a"
  by (simp_all add: keeps_def)

subsection \<open>The concrete setting\<close>

lemma loaded_display_fields:
  "planning_scene_monitor loaded_display = Some example_monitor"
  "planning_scene_render loaded_display = Some PlanningSceneRender"
  "planning_scene_robot loaded_display = Some example_robot"
  "planning_scene_geometry_node loaded_display = Some (createChildSceneNode\<lparr>node_visible := True\<rparr>)"
  "planning_scene_needs_render loaded_display"
  "current_scene_time loaded_display = 0"
  "prop_value (scene_display_time_property loaded_display) = 1 / 5"
  "prop_value (scene_enabled_property loaded_display) = True"
  by (simp_all add: loaded_display_def PlanningSceneDisplay_def new_Property_def
      new_FloatProperty_def setMin_def setMax_def)

lemma reachable_loaded_display: "reachable loaded_display"
proof -
  have "reachable (PlanningSceneDisplay :: rat PlanningSceneDisplay)"
    by (rule reachable.constructed)
  then have "reachable (PlanningSceneDisplay
      \<lparr>planning_scene_node := Some createChildSceneNode,
       planning_scene_geometry_node := Some (createChildSceneNode\<lparr>node_visible := True\<rparr>),
       planning_scene_robot := Some (new_Robot\<lparr>robot_collision_visible := False,
          robot_visual_visible := True, robot_visible := True\<rparr>)\<rparr> :: rat PlanningSceneDisplay)"
    by (rule reachable.operation [where env = example_env and op = OP_onInitialize
          and evs = "[Display_onInitialize]"])
       (simp add: step_def onInitialize_def call_simps PlanningSceneDisplay_def new_Property_def
          example_env_def)
  then show ?thesis
    by (rule reachable.operation [where env = example_env and op = OP_onEnable
          and evs = "[Display_onEnable, AddUpdateCallback CB_sceneMonitorReceivedUpdate,
             StartSceneMonitor ''planning_scene'', Robot_update (KinematicState 0),
             SetStatus Ok ''PlanningScene'' ''Planning Scene Loaded Successfully'']"])
       (simp add: step_def onEnable_def loadRobotModel_def onRobotModelLoaded_def
          calculateOffsetPosition_def getPlanningScene_def getKinematicModel_def call_simps
          example_defs)
qed

lemma monitor_contract_example: "monitor_contract example_env"
  by (simp add: monitor_contract_def example_env_def example_monitor_def)

lemma collaborators_present_loaded: "collaborators_present loaded_display"
  by (simp add: collaborators_present_def loaded_display_fields example_monitor_def)

subsection \<open>Calls on a robot pointer\<close>

lemma setLinkColor_robot_None:
  "setLinkColor_robot None l c = ([], Inl (NullDereference PTR_robot))"
  by (simp add: setLinkColor_robot_def call_simps)

lemma setLinkColor_robot_Some: "\<exists>r'. setLinkColor_robot (Some r) l c = ([], Inr (Some r'))"
  by (cases "getLink r l") (simp_all add: setLinkColor_robot_def call_simps)

lemma unsetLinkColor_robot_None:
  "unsetLinkColor_robot None l = ([], Inl (NullDereference PTR_robot))"
  by (simp add: unsetLinkColor_robot_def call_simps)

lemma unsetLinkColor_robot_Some: "\<exists>r'. unsetLinkColor_robot (Some r) l = ([], Inr (Some r'))"
  by (cases "getLink r l") (simp_all add: unsetLinkColor_robot_def call_simps)

lemma setLinkColor_each_silent: "silent (setLinkColor_each robot ls c) robot"
proof (induction ls arbitrary: robot)
  case Nil
  show ?case by (simp add: silent_def returns_def)
next
  case (Cons l ls)
  show ?case
  proof (cases robot)
    case None
    then show ?thesis by (simp add: silent_def setLinkColor_robot_None call_simps)
  next
    case (Some r)
    obtain r' where "setLinkColor_robot (Some r) l c = ([], Inr (Some r'))"
      using setLinkColor_robot_Some by blast
    with Cons [of "Some r'"] Some show ?thesis
      by (simp add: silent_def call_simps split: prod.splits)
  qed
qed

lemma unsetLinkColor_each_silent: "silent (unsetLinkColor_each robot ls) robot"
proof (induction ls arbitrary: robot)
  case Nil
  show ?case by (simp add: silent_def returns_def)
next
  case (Cons l ls)
  show ?case
  proof (cases robot)
    case None
    then show ?thesis by (simp add: silent_def unsetLinkColor_robot_None call_simps)
  next
    case (Some r)
    obtain r' where "unsetLinkColor_robot (Some r) l = ([], Inr (Some r'))"
      using unsetLinkColor_robot_Some by blast
    with Cons [of "Some r'"] Some show ?thesis
      by (simp add: silent_def call_simps split: prod.splits)
  qed
qed

lemma setLinkColor_robot_silent: "silent (setLinkColor_robot robot l c) robot"
proof (cases robot)
  case None
  then show ?thesis by (simp add: silent_def setLinkColor_robot_None)
next
  case (Some r)
  obtain r' where "setLinkColor_robot (Some r) l c = ([], Inr (Some r'))"
    using setLinkColor_robot_Some by blast
  with Some show ?thesis by (simp add: silent_def)
qed

lemma unsetLinkColor_robot_silent: "silent (unsetLinkColor_robot robot l) robot"
proof (cases robot)
  case None
  then show ?thesis by (simp add: silent_def unsetLinkColor_robot_None)
next
  case (Some r)
  obtain r' where "unsetLinkColor_robot (Some r) l = ([], Inr (Some r'))"
    using unsetLinkColor_robot_Some by blast
  with Some show ?thesis by (simp add: silent_def)
qed

lemma setGroupColor_silent: "silent (setGroupColor d robot g c) robot"
  using setLinkColor_each_silent [of robot _ c]
  by (auto simp: setGroupColor_def call_simps silent_def split: option.splits)

lemma unsetGroupColor_silent: "silent (unsetGroupColor d robot g) robot"
  using unsetLinkColor_each_silent [of robot]
  by (auto simp: unsetGroupColor_def call_simps silent_def split: option.splits)

lemma unsetAllColors_silent: "silent (unsetAllColors d robot) robot"
  using unsetLinkColor_each_silent [of robot]
  by (auto simp: unsetAllColors_def call_simps silent_def split: option.splits)

subsection \<open>The pointers of a reachable display\<close>

lemma with_robot_pointers_consistent:
  assumes "\<And>robot. silent (f robot) robot" and "pointers_consistent d"
  shows "post (with_robot a f d) (keeps pointers_consistent)"
proof (cases a)
  case This_robot
  obtain r where f: "f (planning_scene_robot d) = ([], r)"
    using assms(1) [of "planning_scene_robot d"] by (cases "f (planning_scene_robot d)") (simp add: silent_def)
  with assms(1) [of "planning_scene_robot d"] assms(2) show ?thesis
    unfolding This_robot with_robot_def
    by (cases r) (auto simp: call_simps post_def silent_def pointers_consistent_def)
next
  case (Other_robot x)
  obtain r where f: "f x = ([], r)"
    using assms(1) [of x] by (cases "f x") (simp add: silent_def)
  with assms(2) show ?thesis
    unfolding Other_robot with_robot_def
    by (cases r) (auto simp: call_simps post_def)
qed

lemma invoke_slot_pointers_consistent:
  assumes pc: "pointers_consistent d"
  shows "post (invoke_slot env s d) (keeps pointers_consistent)"
  using pc
  by (cases s) (auto simp: invoke_slot_def pointers_consistent_def leaf_defs post_simps split: leaf_splits)

lemma set_property_pointers_consistent:
  "pointers_consistent (set_property e d) = pointers_consistent d"
  by (cases e) (simp_all add: set_property_def pointers_consistent_def)

lemma step_pointers_consistent:
  assumes pc: "pointers_consistent d"
  shows "post (step env op d) (keeps pointers_consistent)"
proof (cases op)
  case (OP_property_edited e)
  then show ?thesis
    using pc invoke_slot_pointers_consistent [of "set_property e d" env "edited_slot e d"]
    by (simp add: step_def property_edited_def set_property_pointers_consistent)
next
  case (OP_slot s)
  then show ?thesis
    using pc invoke_slot_pointers_consistent [of d env s] by (simp add: step_def)
next
  case (OP_setLinkColor_robot a l c)
  then show ?thesis
    using pc with_robot_pointers_consistent [where f = "\<lambda>robot. setLinkColor_robot robot l c", OF setLinkColor_robot_silent]
    by (simp add: step_def)
next
  case (OP_unsetLinkColor_robot a l)
  then show ?thesis
    using pc with_robot_pointers_consistent [where f = "\<lambda>robot. unsetLinkColor_robot robot l", OF unsetLinkColor_robot_silent]
    by (simp add: step_def)
next
  case (OP_setGroupColor a g c)
  then show ?thesis 
    using pc with_robot_pointers_consistent [where f = "\<lambda>robot. setGroupColor d robot g c", OF setGroupColor_silent]
    by (simp add: step_def)
next
  case (OP_unsetGroupColor a g)
  then show ?thesis
    using pc with_robot_pointers_consistent [where f = "\<lambda>robot. unsetGroupColor d robot g", OF unsetGroupColor_silent]
    by (simp add: step_def)
next
  case (OP_unsetAllColors a)
  then show ?thesis
    using pc with_robot_pointers_consistent [where f = "\<lambda>robot. unsetAllColors d robot", OF unsetAllColors_silent]
    by (simp add: step_def)
qed (use pc in \<open>auto simp: step_def pointers_consistent_def leaf_defs post_simps split: leaf_splits\<close>)

lemma reachable_pointers_consistent: "reachable d \<Longrightarrow> pointers_consistent d"
proof (induction rule: reachable.induct)
  case constructed
  show ?case by (simp add: pointers_consistent_def PlanningSceneDisplay_def)
next
  case (operation d env op evs d')
  have "post (step env op d) (keeps pointers_consistent)"
    using operation.IH by (rule step_pointers_consistent)
  then show ?case unfolding post_def operation.hyps(2) by simp
next
  case (monitor_changed d m m')
  then show ?case by (simp add: pointers_consistent_def)
next
  case (robot_changed d r r')
  then show ?case by (simp add: pointers_consistent_def)
next
  case (node_changed d n n')
  then show ?case by (simp add: pointers_consistent_def)
next
  case (geometry_node_changed d g g')
  then show ?case by (simp add: pointers_consistent_def)
qed

subsection \<open>Traces of operations\<close>

lemma lock_after_append: "lock_after h (a @ b) = lock_after (lock_after h a) b"
  by (induction h a rule: lock_after.induct) simp_all

lemma renders_locked_append:
  "renders_locked h (a @ b) = (renders_locked h a \<and> renders_locked (lock_after h a) b)"
  by (induction h a rule: renders_locked.induct) simp_all

lemma calm_append: "calm a \<Longrightarrow> calm b \<Longrightarrow> calm (a @ b)"
  by (simp add: calm_def lock_after_append renders_locked_append)

lemma invoke_slot_calm: "post (invoke_slot env s d) (\<lambda>evs r. calm evs)"
  by (cases s) (auto simp: invoke_slot_def calm_def leaf_defs post_simps split: leaf_splits)

lemma with_robot_calm:
  assumes "\<And>robot. silent (f robot) robot"
  shows "post (with_robot a f d) (\<lambda>evs r. calm evs)"
proof (cases a)
  case This_robot
  obtain r where f: "f (planning_scene_robot d) = ([], r)"
    using assms [of "planning_scene_robot d"] by (cases "f (planning_scene_robot d)") (simp add: silent_def)
  then show ?thesis
    unfolding This_robot with_robot_def
    by (cases r) (auto simp: call_simps calm_def post_def)
next
  case (Other_robot x)
  obtain r where f: "f x = ([], r)"
    using assms [of x] by (cases "f x") (simp add: silent_def)
  then show ?thesis
    unfolding Other_robot with_robot_def
    by (cases r) (auto simp: call_simps calm_def post_def)
qed

lemma step_calm: "post (step env op d) (\<lambda>evs r. calm evs)"
proof (cases op)
  case (OP_property_edited e)
  then show ?thesis
    using invoke_slot_calm [of env "edited_slot e d" "set_property e d"]
    by (simp add: step_def property_edited_def)
next
  case (OP_slot s)
  then show ?thesis
    using invoke_slot_calm [of env s d] by (simp add: step_def)
next
  case (OP_setLinkColor_robot a l c)
  then show ?thesis
    using with_robot_calm [where f = "\<lambda>robot. setLinkColor_robot robot l c", OF setLinkColor_robot_silent]
    by (simp add: step_def)
next
  case (OP_unsetLinkColor_robot a l)
  then show ?thesis
    using with_robot_calm [where f = "\<lambda>robot. unsetLinkColor_robot robot l", OF unsetLinkColor_robot_silent]
    by (simp add: step_def)
next
  case (OP_setGroupColor a g c)
  then show ?thesis 
    using with_robot_calm [where f = "\<lambda>robot. setGroupColor d robot g c", OF setGroupColor_silent]
    by (simp add: step_def)
next
  case (OP_unsetGroupColor a g)
  then show ?thesis
    using with_robot_calm [where f = "\<lambda>robot. unsetGroupColor d robot g", OF unsetGroupColor_silent]
    by (simp add: step_def)
next
  case (OP_unsetAllColors a)
  then show ?thesis
    using with_robot_calm [where f = "\<lambda>robot. unsetAllColors d robot", OF unsetAllColors_silent]
    by (simp add: step_def)
qed (auto simp: step_def calm_def leaf_defs post_simps split: leaf_splits)

lemma run_calm: "post (run steps d) (\<lambda>evs r. calm evs)"
proof (induction steps arbitrary: d)
  case Nil
  show ?case by (simp add: post_simps calm_def)
next
  case (Cons x xs)
  have "post (step (fst x) (snd x) d)
          (\<lambda>evs r. case r of Inl f \<Rightarrow> calm evs
                    | Inr a \<Rightarrow> post (run xs a) (\<lambda>evs' r'. calm (evs @ evs')))"
  proof (rule post_weaken [OF step_calm])
    fix evs :: "'a event list" and r :: "fault + 'a PlanningSceneDisplay"
    assume "calm evs"
    then show "case r of Inl f \<Rightarrow> calm evs
               | Inr a \<Rightarrow> post (run xs a) (\<lambda>evs' r'. calm (evs @ evs'))"
      using Cons.IH by (auto simp: post_def calm_append split: sum.splits)
  qed
  then show ?case by (simp add: post_and_then)
qed

subsection \<open>Rendering under the scene lock\<close>

lemma renderPlanningScene_idle:
  "\<not> (planning_scene_render d \<noteq> None \<and> planning_scene_needs_render d)
     \<Longrightarrow> renderPlanningScene env d = ([], Inr d)"
  by (rule eq_by_post) (auto simp: renderPlanningScene_def post_simps)

lemma renderPlanningScene_events:
  "planning_scene_render d \<noteq> None \<Longrightarrow> planning_scene_needs_render d
     \<Longrightarrow> fst (renderPlanningScene env d) =
           (case planning_scene_monitor d of
              None \<Rightarrow> []
            | Some m \<Rightarrow>
                [LockScene, RenderPlanningScene (render_arguments d)]
                @ (case renderer_throws env (render_arguments d) of
                     None \<Rightarrow> []
                   | Some x \<Rightarrow> [ROS_ERROR ''Exception thrown while rendering planning scene''])
                @ [UnlockScene])"
  by (rule fst_by_post)
     (auto simp: renderPlanningScene_def try_render_def render_arguments_def Let_def post_simps
      split: option.splits)

lemma renderPlanningScene_result:
  "planning_scene_render d \<noteq> None \<Longrightarrow> planning_scene_needs_render d
     \<Longrightarrow> snd (renderPlanningScene env d) =
           (case planning_scene_monitor d of
              None \<Rightarrow> Inl (NullDereference PTR_planning_scene_monitor)
            | Some m \<Rightarrow>
               (case planning_scene_geometry_node d of
                  None \<Rightarrow> Inl (NullDereference PTR_planning_scene_geometry_node)
                | Some g \<Rightarrow>
                    Inr (d\<lparr>planning_scene_needs_render := False,
                           planning_scene_geometry_node :=
                             Some (g\<lparr>node_visible := prop_value (scene_enabled_property d)\<rparr>)\<rparr>)))"
  by (rule snd_by_post)
     (auto simp: renderPlanningScene_def try_render_def render_arguments_def Let_def post_simps
      split: option.splits)

text \<open>
  C1. Whenever \<^verbatim>\<open>renderPlanningScene\<close> goes past its guard (a renderer is held and the
  needs-render flag is set), the events it emits are: the lock, the call into the
  renderer, the error message if and only if the renderer threw, and the unlock, in
  this order, whatever the renderer does; without a monitor to lock it emits nothing.
  When the guard fails it emits nothing. Over every run of operations of the display,
  from any state, every call into the renderer is issued while the lock is held, and
  the lock is not held when the run ends.
\<close>

theorem render_call_holds_scene_lock:
  "(planning_scene_render d \<noteq> None \<and> planning_scene_needs_render d \<longrightarrow>
      fst (renderPlanningScene env d) =
        (case planning_scene_monitor d of
           None \<Rightarrow> []
         | Some m \<Rightarrow>
             [LockScene, RenderPlanningScene (render_arguments d)]
             @ (case renderer_throws env (render_arguments d) of
                  None \<Rightarrow> []
                | Some x \<Rightarrow> [ROS_ERROR ''Exception thrown while rendering planning scene''])
             @ [UnlockScene]))
   \<and> (\<not> (planning_scene_render d \<noteq> None \<and> planning_scene_needs_render d) \<longrightarrow>
        fst (renderPlanningScene env d) = [])
   \<and> renders_locked False (fst (run steps d))
   \<and> \<not> lock_after False (fst (run steps d))"
proof -
  have "calm (fst (run steps d))"
    using run_calm [of steps d] by (simp add: post_def)
  then show ?thesis
    using renderPlanningScene_events [of d env] renderPlanningScene_idle [of d env]
    by (auto simp: calm_def)
qed

theorem render_call_holds_scene_lock_witness:
  "planning_scene_render loaded_display \<noteq> None
   \<and> planning_scene_needs_render loaded_display
   \<and> fst (renderPlanningScene throwing_env loaded_display) =
       [LockScene,
        RenderPlanningScene
          (RenderCall (Some example_scene) (Color (50 / 255) (230 / 255) (50 / 255))
             (Color (150 / 255) (50 / 255) (150 / 255)) (9 / 10) (5 / 10)),
        ROS_ERROR ''Exception thrown while rendering planning scene'',
        UnlockScene]
   \<and> \<not> (planning_scene_render (PlanningSceneDisplay :: rat PlanningSceneDisplay) \<noteq> None
          \<and> planning_scene_needs_render (PlanningSceneDisplay :: rat PlanningSceneDisplay))
   \<and> fst (renderPlanningScene example_env PlanningSceneDisplay) = []"
  using render_call_holds_scene_lock [of loaded_display throwing_env "[]"]
        render_call_holds_scene_lock [of PlanningSceneDisplay example_env "[]"]
  by (simp add: example_defs render_arguments_def getPlanningScene_def
      redF_def greenF_def blueF_def)

subsection \<open>Exceptions of the renderer\<close>

text \<open>
  C2. When the renderer throws inside \<^verbatim>\<open>renderPlanningScene\<close> (which takes a renderer,
  the needs-render flag and a monitor to reach it; the geometry node exists once the
  display is initialised), the function returns normally, whatever was thrown. It has
  called the renderer once, logged the one error message, cleared the needs-render
  flag and unlocked the scene; the state it leaves is the state the same call leaves
  with a renderer that does not throw, and the events differ by the error message only.
  In no state at all does \<^verbatim>\<open>renderPlanningScene\<close> let an exception out.
\<close>

theorem renderer_exception_is_caught_and_logged:
  assumes "planning_scene_render d \<noteq> None" and "planning_scene_needs_render d"
    and "planning_scene_monitor d = Some m" and "planning_scene_geometry_node d = Some g"
    and "renderer_throws env (render_arguments d) = Some x"
  shows "renderPlanningScene env d =
           ([LockScene, RenderPlanningScene (render_arguments d),
             ROS_ERROR ''Exception thrown while rendering planning scene'', UnlockScene],
            Inr (d\<lparr>planning_scene_needs_render := False,
                   planning_scene_geometry_node :=
                     Some (g\<lparr>node_visible := prop_value (scene_enabled_property d)\<rparr>)\<rparr>))
         \<and> renderPlanningScene (env\<lparr>renderer_throws := (\<lambda>_. None)\<rparr>) d =
           ([LockScene, RenderPlanningScene (render_arguments d), UnlockScene],
            snd (renderPlanningScene env d))
         \<and> snd (renderPlanningScene env' d') \<noteq> Inl (Uncaught y)"
proof -
  have "snd (renderPlanningScene env' d') \<noteq> Inl (Uncaught y)"
    using renderPlanningScene_result [of d' env'] renderPlanningScene_idle [of d' env']
    by (cases "planning_scene_render d' \<noteq> None \<and> planning_scene_needs_render d'")
       (auto split: option.splits)
  moreover have "renderPlanningScene env d =
           ([LockScene, RenderPlanningScene (render_arguments d),
             ROS_ERROR ''Exception thrown while rendering planning scene'', UnlockScene],
            Inr (d\<lparr>planning_scene_needs_render := False,
                   planning_scene_geometry_node :=
                     Some (g\<lparr>node_visible := prop_value (scene_enabled_property d)\<rparr>)\<rparr>))"
    using assms renderPlanningScene_result [of d env] renderPlanningScene_events [of d env]
    by (cases "renderPlanningScene env d") simp
  moreover have "renderPlanningScene (env\<lparr>renderer_throws := (\<lambda>_. None)\<rparr>) d =
           ([LockScene, RenderPlanningScene (render_arguments d), UnlockScene],
            snd (renderPlanningScene env d))"
    using assms renderPlanningScene_result [of d env]
      renderPlanningScene_result [of d "env\<lparr>renderer_throws := (\<lambda>_. None)\<rparr>"]
      renderPlanningScene_events [of d "env\<lparr>renderer_throws := (\<lambda>_. None)\<rparr>"]
    by (cases "renderPlanningScene (env\<lparr>renderer_throws := (\<lambda>_. None)\<rparr>) d") simp
  ultimately show ?thesis by simp
qed

theorem renderer_exception_is_caught_and_logged_witness:
  "planning_scene_render loaded_display \<noteq> None
   \<and> planning_scene_needs_render loaded_display
   \<and> planning_scene_monitor loaded_display = Some example_monitor
   \<and> planning_scene_geometry_node loaded_display
       = Some (createChildSceneNode\<lparr>node_visible := True\<rparr>)
   \<and> renderer_throws throwing_env (render_arguments loaded_display)
       = Some (OtherException ''bad_alloc'')
   \<and> renderPlanningScene throwing_env loaded_display =
       ([LockScene, RenderPlanningScene (render_arguments loaded_display),
         ROS_ERROR ''Exception thrown while rendering planning scene'', UnlockScene],
        Inr (loaded_display\<lparr>planning_scene_needs_render := False,
               planning_scene_geometry_node :=
                 Some (createChildSceneNode
                   \<lparr>node_visible := True,
                    node_visible := prop_value (scene_enabled_property loaded_display)\<rparr>)\<rparr>))"
proof -
  have h1: "planning_scene_render loaded_display \<noteq> None"
    and h2: "planning_scene_needs_render loaded_display"
    and h3: "planning_scene_monitor loaded_display = Some example_monitor"
    and h4: "planning_scene_geometry_node loaded_display
               = Some (createChildSceneNode\<lparr>node_visible := True\<rparr>)"
    by (simp_all add: loaded_display_def PlanningSceneDisplay_def)
  have h5: "renderer_throws throwing_env (render_arguments loaded_display)
              = Some (OtherException ''bad_alloc'')"
    by (simp add: throwing_env_def example_env_def)
  from renderer_exception_is_caught_and_logged [OF h1 h2 h3 h4 h5, THEN conjunct1]
    h1 h2 h3 h4 h5
  show ?thesis by simp
qed

subsection \<open>Loading the robot model\<close>

lemma loadRobotModel_uninitialised:
  assumes "display_context env = None"
  shows "loadRobotModel env d = ([], Inl (NullDereference PTR_context))"
  using assms
  by (intro eq_by_post) (simp add: loadRobotModel_def post_simps)

lemma loadRobotModel_success:
  assumes "display_context env \<noteq> None"
    and "monitor_planning_scene (fresh_monitor env d) = Some s" and "scene_configured s"
    and "monitor_kinematic_model (fresh_monitor env d) = Some km"
    and "planning_scene_robot d = Some rb"
  shows "loadRobotModel env d =
           ([AddUpdateCallback CB_sceneMonitorReceivedUpdate,
             StartSceneMonitor (prop_value (planning_scene_topic_property d)),
             Robot_update (scene_current_state s),
             SetStatus Ok ''PlanningScene'' ''Planning Scene Loaded Successfully''],
            Inr (d\<lparr>planning_scene_monitor := Some (fresh_monitor env d),
                   planning_scene_render := Some PlanningSceneRender,
                   planning_scene_robot := Some (Robot_load (model_urdf km) rb),
                   scene_name_property := (scene_name_property d)\<lparr>prop_value := scene_name s\<rparr>,
                   root_link_name_property :=
                     (root_link_name_property d)\<lparr>prop_value := root_link_name km\<rparr>\<rparr>))"
  using assms
  by (intro eq_by_post)
     (auto simp: loadRobotModel_def onRobotModelLoaded_def getPlanningScene_def
        getKinematicModel_def fresh_monitor_def post_simps)

lemma loadRobotModel_failure:
  assumes "display_context env \<noteq> None"
    and "\<not> (\<exists>s. monitor_planning_scene (fresh_monitor env d) = Some s \<and> scene_configured s)"
  shows "loadRobotModel env d =
           ([SetStatus Error ''PlanningScene'' ''No Planning Scene Loaded''],
            Inr (d\<lparr>planning_scene_monitor := None, planning_scene_render := None\<rparr>))"
  using assms
  by (intro eq_by_post)
     (auto simp: loadRobotModel_def getPlanningScene_def fresh_monitor_def post_simps
        split: option.splits)

lemma loadRobotModel_faults:
  assumes "display_context env \<noteq> None"
    and "monitor_planning_scene (fresh_monitor env d) = Some s" and "scene_configured s"
    and "monitor_kinematic_model (fresh_monitor env d) = None \<or> planning_scene_robot d = None"
  shows "loadRobotModel env d =
           ([AddUpdateCallback CB_sceneMonitorReceivedUpdate,
             StartSceneMonitor (prop_value (planning_scene_topic_property d))],
            Inl (NullDereference
                   (if monitor_kinematic_model (fresh_monitor env d) = None
                    then PTR_kinematic_model else PTR_planning_scene_robot)))"
  using assms
  by (intro eq_by_post)
     (auto simp: loadRobotModel_def onRobotModelLoaded_def getPlanningScene_def
        getKinematicModel_def fresh_monitor_def post_simps split: option.splits)

text \<open>
  C3, as the code has it. Let \<open>fresh_monitor env d\<close> be the scene monitor
  \<^verbatim>\<open>loadRobotModel\<close> constructs. In a display the host has initialised (\<^verbatim>\<open>context_\<close> and
  the robot are non-null), with a monitor that has a kinematic model whenever it holds
  a configured scene, \<^verbatim>\<open>loadRobotModel\<close> returns and the last thing it does is to set a
  status. If the monitor holds a configured scene, \<^verbatim>\<open>loadRobotModel\<close> registers the
  update callback, starts the monitor on the configured topic, creates the renderer,
  keeps the monitor and sets the status Ok ``Planning Scene Loaded Successfully''. If
  it holds no scene or an unconfigured one, \<^verbatim>\<open>loadRobotModel\<close> sets the status Error
  ``No Planning Scene Loaded'' and leaves the display with neither a monitor nor a
  renderer, whatever the display held before. A status is not set in every case: with
  a null \<^verbatim>\<open>context_\<close> the call faults after the two resets, before it constructs a
  monitor; with a configured scene and no kinematic model, or no robot, it faults in
  \<^verbatim>\<open>onRobotModelLoaded\<close>, after it has registered the callback and started the
  monitor. A status was set exactly if the call returns.
\<close>

theorem loadRobotModel_sets_status:
  "(display_context env \<noteq> None \<and> planning_scene_robot d \<noteq> None
      \<and> (\<forall>s. monitor_planning_scene (fresh_monitor env d) = Some s \<and> scene_configured s \<longrightarrow>
             monitor_kinematic_model (fresh_monitor env d) \<noteq> None) \<longrightarrow>
      (\<exists>evs level text d'.
          loadRobotModel env d = (evs @ [SetStatus level ''PlanningScene'' text], Inr d')))
   \<and> (display_context env \<noteq> None
        \<and> monitor_planning_scene (fresh_monitor env d) = Some s \<and> scene_configured s
        \<and> monitor_kinematic_model (fresh_monitor env d) = Some km
        \<and> planning_scene_robot d = Some rb \<longrightarrow>
        loadRobotModel env d =
          ([AddUpdateCallback CB_sceneMonitorReceivedUpdate,
            StartSceneMonitor (prop_value (planning_scene_topic_property d)),
            Robot_update (scene_current_state s),
            SetStatus Ok ''PlanningScene'' ''Planning Scene Loaded Successfully''],
           Inr (d\<lparr>planning_scene_monitor := Some (fresh_monitor env d),
                  planning_scene_render := Some PlanningSceneRender,
                  planning_scene_robot := Some (Robot_load (model_urdf km) rb),
                  scene_name_property := (scene_name_property d)\<lparr>prop_value := scene_name s\<rparr>,
                  root_link_name_property :=
                    (root_link_name_property d)\<lparr>prop_value := root_link_name km\<rparr>\<rparr>)))
   \<and> (display_context env \<noteq> None
        \<and> \<not> (\<exists>s. monitor_planning_scene (fresh_monitor env d) = Some s \<and> scene_configured s) \<longrightarrow>
        loadRobotModel env d =
          ([SetStatus Error ''PlanningScene'' ''No Planning Scene Loaded''],
           Inr (d\<lparr>planning_scene_monitor := None, planning_scene_render := None\<rparr>)))
   \<and> (display_context env = None \<longrightarrow>
        loadRobotModel env d = ([], Inl (NullDereference PTR_context)))
   \<and> (display_context env \<noteq> None
        \<and> monitor_planning_scene (fresh_monitor env d) = Some s \<and> scene_configured s
        \<and> (monitor_kinematic_model (fresh_monitor env d) = None \<or> planning_scene_robot d = None) \<longrightarrow>
        loadRobotModel env d =
          ([AddUpdateCallback CB_sceneMonitorReceivedUpdate,
            StartSceneMonitor (prop_value (planning_scene_topic_property d))],
           Inl (NullDereference
                  (if monitor_kinematic_model (fresh_monitor env d) = None
                   then PTR_kinematic_model else PTR_planning_scene_robot))))
   \<and> ((\<exists>level name text. SetStatus level name text \<in> set (fst (loadRobotModel env d)))
        = (\<exists>d'. snd (loadRobotModel env d) = Inr d'))"
proof -
  let ?configured =
    "\<exists>s. monitor_planning_scene (fresh_monitor env d) = Some s \<and> scene_configured s"
  have total: "display_context env \<noteq> None \<and> planning_scene_robot d \<noteq> None
      \<and> (\<forall>s. monitor_planning_scene (fresh_monitor env d) = Some s \<and> scene_configured s \<longrightarrow>
             monitor_kinematic_model (fresh_monitor env d) \<noteq> None) \<longrightarrow>
      (\<exists>evs level text d'.
          loadRobotModel env d = (evs @ [SetStatus level ''PlanningScene'' text], Inr d'))"
  proof
    assume a: "display_context env \<noteq> None \<and> planning_scene_robot d \<noteq> None
      \<and> (\<forall>s. monitor_planning_scene (fresh_monitor env d) = Some s \<and> scene_configured s \<longrightarrow>
             monitor_kinematic_model (fresh_monitor env d) \<noteq> None)"
    show "\<exists>evs level text d'.
          loadRobotModel env d = (evs @ [SetStatus level ''PlanningScene'' text], Inr d')"
    proof (cases ?configured)
      case False
      with a have "loadRobotModel env d =
          ([] @ [SetStatus Error ''PlanningScene'' ''No Planning Scene Loaded''],
           Inr (d\<lparr>planning_scene_monitor := None, planning_scene_render := None\<rparr>))"
        by (simp add: loadRobotModel_failure)
      then show ?thesis by blast
    next
      case True
      then obtain s' where s': "monitor_planning_scene (fresh_monitor env d) = Some s'"
        "scene_configured s'" by blast
      with a obtain km' rb' where "monitor_kinematic_model (fresh_monitor env d) = Some km'"
        "planning_scene_robot d = Some rb'" by auto
      with a s' have "loadRobotModel env d =
           ([AddUpdateCallback CB_sceneMonitorReceivedUpdate,
             StartSceneMonitor (prop_value (planning_scene_topic_property d)),
             Robot_update (scene_current_state s')]
            @ [SetStatus Ok ''PlanningScene'' ''Planning Scene Loaded Successfully''],
            Inr (d\<lparr>planning_scene_monitor := Some (fresh_monitor env d),
                   planning_scene_render := Some PlanningSceneRender,
                   planning_scene_robot := Some (Robot_load (model_urdf km') rb'),
                   scene_name_property := (scene_name_property d)\<lparr>prop_value := scene_name s'\<rparr>,
                   root_link_name_property :=
                     (root_link_name_property d)\<lparr>prop_value := root_link_name km'\<rparr>\<rparr>))"
        by (simp add: loadRobotModel_success)
      then show ?thesis by blast
    qed
  qed
  have success: "display_context env \<noteq> None
        \<and> monitor_planning_scene (fresh_monitor env d) = Some s \<and> scene_configured s
        \<and> monitor_kinematic_model (fresh_monitor env d) = Some km
        \<and> planning_scene_robot d = Some rb \<longrightarrow>
        loadRobotModel env d =
          ([AddUpdateCallback CB_sceneMonitorReceivedUpdate,
            StartSceneMonitor (prop_value (planning_scene_topic_property d)),
            Robot_update (scene_current_state s),
            SetStatus Ok ''PlanningScene'' ''Planning Scene Loaded Successfully''],
           Inr (d\<lparr>planning_scene_monitor := Some (fresh_monitor env d),
                  planning_scene_render := Some PlanningSceneRender,
                  planning_scene_robot := Some (Robot_load (model_urdf km) rb),
                  scene_name_property := (scene_name_property d)\<lparr>prop_value := scene_name s\<rparr>,
                  root_link_name_property :=
                    (root_link_name_property d)\<lparr>prop_value := root_link_name km\<rparr>\<rparr>))"
    using loadRobotModel_success [of env d s km rb] by blast
  have failure: "display_context env \<noteq> None \<and> \<not> ?configured \<longrightarrow>
        loadRobotModel env d =
          ([SetStatus Error ''PlanningScene'' ''No Planning Scene Loaded''],
           Inr (d\<lparr>planning_scene_monitor := None, planning_scene_render := None\<rparr>))"
    using loadRobotModel_failure [of env d] by blast
  have uninitialised: "display_context env = None \<longrightarrow>
        loadRobotModel env d = ([], Inl (NullDereference PTR_context))"
    using loadRobotModel_uninitialised [of env d] by blast
  have faults: "display_context env \<noteq> None
        \<and> monitor_planning_scene (fresh_monitor env d) = Some s \<and> scene_configured s
        \<and> (monitor_kinematic_model (fresh_monitor env d) = None \<or> planning_scene_robot d = None) \<longrightarrow>
        loadRobotModel env d =
          ([AddUpdateCallback CB_sceneMonitorReceivedUpdate,
            StartSceneMonitor (prop_value (planning_scene_topic_property d))],
           Inl (NullDereference
                  (if monitor_kinematic_model (fresh_monitor env d) = None
                   then PTR_kinematic_model else PTR_planning_scene_robot)))"
    using loadRobotModel_faults [of env d s] by blast
  have exactly: "(\<exists>level name text. SetStatus level name text \<in> set (fst (loadRobotModel env d)))
        = (\<exists>d'. snd (loadRobotModel env d) = Inr d')"
  proof (cases "display_context env = None")
    case True
    then show ?thesis by (simp add: loadRobotModel_uninitialised)
  next
    case initialised: False
    show ?thesis
    proof (cases ?configured)
      case False
      with initialised show ?thesis by (simp add: loadRobotModel_failure)
    next
      case True
      then obtain s' where s': "monitor_planning_scene (fresh_monitor env d) = Some s'"
        "scene_configured s'" by blast
      show ?thesis
      proof (cases "monitor_kinematic_model (fresh_monitor env d) = None
                     \<or> planning_scene_robot d = None")
        case True
        show ?thesis by (simp add: loadRobotModel_faults [OF initialised s' True])
      next
        case False
        then obtain km' rb' where "monitor_kinematic_model (fresh_monitor env d) = Some km'"
          "planning_scene_robot d = Some rb'" by auto
        with initialised s' show ?thesis by (simp add: loadRobotModel_success)
      qed
    qed
  qed
  show ?thesis
    by (rule conjI [OF total conjI [OF success conjI [OF failure
          conjI [OF uninitialised conjI [OF faults exactly]]]]])
qed

theorem loadRobotModel_sets_status_witness:
  "display_context example_env \<noteq> None
   \<and> planning_scene_robot loaded_display = Some example_robot
   \<and> monitor_planning_scene (fresh_monitor example_env loaded_display) = Some example_scene
   \<and> scene_configured example_scene
   \<and> monitor_kinematic_model (fresh_monitor example_env loaded_display) = Some example_model
   \<and> fst (loadRobotModel example_env loaded_display) =
       [AddUpdateCallback CB_sceneMonitorReceivedUpdate, StartSceneMonitor ''planning_scene'',
        Robot_update (KinematicState 0),
        SetStatus Ok ''PlanningScene'' ''Planning Scene Loaded Successfully'']
   \<and> display_context unconfigured_env \<noteq> None
   \<and> \<not> (\<exists>s. monitor_planning_scene (fresh_monitor unconfigured_env loaded_display) = Some s
            \<and> scene_configured s)
   \<and> loadRobotModel unconfigured_env loaded_display =
       ([SetStatus Error ''PlanningScene'' ''No Planning Scene Loaded''],
        Inr (loaded_display\<lparr>planning_scene_monitor := None, planning_scene_render := None\<rparr>))
   \<and> display_context uninitialised_env = None
   \<and> loadRobotModel uninitialised_env loaded_display = ([], Inl (NullDereference PTR_context))"
proof -
  have e: "display_context example_env \<noteq> None"
    "monitor_planning_scene (fresh_monitor example_env loaded_display) = Some example_scene"
    "scene_configured example_scene"
    "monitor_kinematic_model (fresh_monitor example_env loaded_display) = Some example_model"
    by (simp_all add: fresh_monitor_def example_env_def example_monitor_def example_scene_def)
  have u: "display_context unconfigured_env \<noteq> None"
    "\<not> (\<exists>s. monitor_planning_scene (fresh_monitor unconfigured_env loaded_display) = Some s
            \<and> scene_configured s)"
    by (simp_all add: fresh_monitor_def unconfigured_env_def example_env_def)
  have n: "display_context uninitialised_env = None"
    by (simp add: uninitialised_env_def)
  note t = loadRobotModel_sets_status
  from t [where env = example_env and d = loaded_display and s = example_scene
            and km = example_model and rb = example_robot] e loaded_display_fields(3)
  have a: "fst (loadRobotModel example_env loaded_display) =
       [AddUpdateCallback CB_sceneMonitorReceivedUpdate, StartSceneMonitor ''planning_scene'',
        Robot_update (KinematicState 0),
        SetStatus Ok ''PlanningScene'' ''Planning Scene Loaded Successfully'']"
    by (simp add: loaded_display_def PlanningSceneDisplay_def new_Property_def example_scene_def)
  from t [where env = unconfigured_env and d = loaded_display and s = example_scene
            and km = example_model and rb = example_robot] u
  have b: "loadRobotModel unconfigured_env loaded_display =
       ([SetStatus Error ''PlanningScene'' ''No Planning Scene Loaded''],
        Inr (loaded_display\<lparr>planning_scene_monitor := None, planning_scene_render := None\<rparr>))"
    by simp
  from t [where env = uninitialised_env and d = loaded_display and s = example_scene
            and km = example_model and rb = example_robot] n
  have c: "loadRobotModel uninitialised_env loaded_display = ([], Inl (NullDereference PTR_context))"
    by simp
  from e u n a b c loaded_display_fields(3) show ?thesis by simp
qed

theorem loadRobotModel_without_status_counterexample:
  "monitor_planning_scene (fresh_monitor modelless_env loaded_display) = Some example_scene
   \<and> scene_configured example_scene
   \<and> loadRobotModel modelless_env loaded_display =
       ([AddUpdateCallback CB_sceneMonitorReceivedUpdate, StartSceneMonitor ''planning_scene''],
        Inl (NullDereference PTR_kinematic_model))
   \<and> monitor_planning_scene (fresh_monitor example_env PlanningSceneDisplay) = Some example_scene
   \<and> loadRobotModel example_env PlanningSceneDisplay =
       ([AddUpdateCallback CB_sceneMonitorReceivedUpdate, StartSceneMonitor ''planning_scene''],
        Inl (NullDereference PTR_planning_scene_robot))
   \<and> loadRobotModel uninitialised_env PlanningSceneDisplay =
       ([], Inl (NullDereference PTR_context))"
proof -
  have m: "display_context modelless_env \<noteq> None"
    "monitor_planning_scene (fresh_monitor modelless_env loaded_display) = Some example_scene"
    "scene_configured example_scene"
    "monitor_kinematic_model (fresh_monitor modelless_env loaded_display) = None"
    by (simp_all add: fresh_monitor_def modelless_env_def example_env_def example_scene_def)
  have e: "display_context example_env \<noteq> None"
    "monitor_planning_scene (fresh_monitor example_env PlanningSceneDisplay) = Some example_scene"
    "planning_scene_robot (PlanningSceneDisplay :: rat PlanningSceneDisplay) = None"
    by (simp_all add: fresh_monitor_def example_env_def example_monitor_def
        PlanningSceneDisplay_def)
  have a: "loadRobotModel modelless_env loaded_display =
       ([AddUpdateCallback CB_sceneMonitorReceivedUpdate, StartSceneMonitor ''planning_scene''],
        Inl (NullDereference PTR_kinematic_model))"
    using loadRobotModel_faults [OF m(1) m(2) m(3)] m(4)
    by (simp add: loaded_display_def PlanningSceneDisplay_def new_Property_def)
  have b: "loadRobotModel example_env PlanningSceneDisplay =
       ([AddUpdateCallback CB_sceneMonitorReceivedUpdate, StartSceneMonitor ''planning_scene''],
        Inl (NullDereference PTR_planning_scene_robot))"
    using loadRobotModel_faults [OF e(1) e(2) m(3)] e(3)
    by (simp add: fresh_monitor_def example_env_def example_monitor_def example_model_def
        PlanningSceneDisplay_def new_Property_def)
  have c: "loadRobotModel uninitialised_env PlanningSceneDisplay =
       ([], Inl (NullDereference PTR_context))"
    by (simp add: loadRobotModel_uninitialised uninitialised_env_def)
  from m e a b c show ?thesis by simp
qed

subsection \<open>Property changes that queue a render\<close>

lemma invoke_slot_slots:
  assumes "slots_as_constructed d"
  shows "post (invoke_slot env s d) (keeps slots_as_constructed)"
  using assms
  by (cases s) (auto simp: invoke_slot_def slots_as_constructed_def leaf_defs post_simps split: leaf_splits)

lemma set_property_slots: "slots_as_constructed (set_property e d) = slots_as_constructed d"
  by (cases e) (simp_all add: set_property_def slots_as_constructed_def)

lemma with_robot_slots:
  assumes "\<And>robot. silent (f robot) robot" and "slots_as_constructed d"
  shows "post (with_robot a f d) (keeps slots_as_constructed)"
proof (cases a)
  case This_robot
  obtain r where f: "f (planning_scene_robot d) = ([], r)"
    using assms(1) [of "planning_scene_robot d"] by (cases "f (planning_scene_robot d)") (simp add: silent_def)
  with assms(2) show ?thesis
    unfolding This_robot with_robot_def
    by (cases r) (auto simp: call_simps post_def slots_as_constructed_def)
next
  case (Other_robot x)
  obtain r where f: "f x = ([], r)"
    using assms(1) [of x] by (cases "f x") (simp add: silent_def)
  with assms(2) show ?thesis
    unfolding Other_robot with_robot_def
    by (cases r) (auto simp: call_simps post_def)
qed

lemma step_slots:
  assumes sc: "slots_as_constructed d"
  shows "post (step env op d) (keeps slots_as_constructed)"
proof (cases op)
  case (OP_property_edited e)
  then show ?thesis
    using sc invoke_slot_slots [of "set_property e d" env "edited_slot e d"]
    by (simp add: step_def property_edited_def set_property_slots)
next
  case (OP_slot s)
  then show ?thesis
    using sc invoke_slot_slots [of d env s] by (simp add: step_def)
next
  case (OP_setLinkColor_robot a l c)
  then show ?thesis
    using sc with_robot_slots [where f = "\<lambda>robot. setLinkColor_robot robot l c", OF setLinkColor_robot_silent]
    by (simp add: step_def)
next
  case (OP_unsetLinkColor_robot a l)
  then show ?thesis
    using sc with_robot_slots [where f = "\<lambda>robot. unsetLinkColor_robot robot l", OF unsetLinkColor_robot_silent]
    by (simp add: step_def)
next
  case (OP_setGroupColor a g c)
  then show ?thesis 
    using sc with_robot_slots [where f = "\<lambda>robot. setGroupColor d robot g c", OF setGroupColor_silent]
    by (simp add: step_def)
next
  case (OP_unsetGroupColor a g)
  then show ?thesis
    using sc with_robot_slots [where f = "\<lambda>robot. unsetGroupColor d robot g", OF unsetGroupColor_silent]
    by (simp add: step_def)
next
  case (OP_unsetAllColors a)
  then show ?thesis
    using sc with_robot_slots [where f = "\<lambda>robot. unsetAllColors d robot", OF unsetAllColors_silent]
    by (simp add: step_def)
qed (use sc in \<open>auto simp: step_def slots_as_constructed_def leaf_defs post_simps split: leaf_splits\<close>)

lemma reachable_slots: "reachable d \<Longrightarrow> slots_as_constructed d"
proof (induction rule: reachable.induct)
  case constructed
  show ?case
    by (simp add: slots_as_constructed_def PlanningSceneDisplay_def new_Property_def
        new_FloatProperty_def setMin_def setMax_def)
next
  case (operation d env op evs d')
  have "post (step env op d) (keeps slots_as_constructed)"
    using operation.IH by (rule step_slots)
  then show ?case unfolding post_def operation.hyps(2) by simp
next
  case (monitor_changed d m m')
  then show ?case by (simp add: slots_as_constructed_def)
next
  case (robot_changed d r r')
  then show ?case by (simp add: slots_as_constructed_def)
next
  case (node_changed d n n')
  then show ?case by (simp add: slots_as_constructed_def)
next
  case (geometry_node_changed d g g')
  then show ?case by (simp add: slots_as_constructed_def)
qed

text \<open>
  C4. The handlers \<^verbatim>\<open>changedSceneAlpha\<close>, \<^verbatim>\<open>changedSceneColor\<close> and
  \<^verbatim>\<open>changedAttachedBodyColor\<close> (and \<^verbatim>\<open>queueRenderSceneGeometry\<close>, which they call) set
  \<^verbatim>\<open>planning_scene_needs_render_\<close> to true and change nothing else of the display, in
  every state. They are the slots of the scene alpha, scene colour and attached body
  colour properties: in every reachable state, an edit of one of these properties
  stores the new value, sets the flag, emits nothing and changes nothing else.
\<close>

theorem scene_geometry_property_change_queues_render:
  "changedSceneAlpha d = d\<lparr>planning_scene_needs_render := True\<rparr>
   \<and> changedSceneColor d = d\<lparr>planning_scene_needs_render := True\<rparr>
   \<and> changedAttachedBodyColor d = d\<lparr>planning_scene_needs_render := True\<rparr>
   \<and> queueRenderSceneGeometry d = d\<lparr>planning_scene_needs_render := True\<rparr>
   \<and> (reachable r \<longrightarrow>
        property_edited env (Edit_scene_alpha a) r =
          ([], Inr (r\<lparr>scene_alpha_property := (scene_alpha_property r)\<lparr>prop_value := a\<rparr>,
                      planning_scene_needs_render := True\<rparr>))
        \<and> property_edited env (Edit_scene_color c) r =
          ([], Inr (r\<lparr>scene_color_property := (scene_color_property r)\<lparr>prop_value := c\<rparr>,
                      planning_scene_needs_render := True\<rparr>))
        \<and> property_edited env (Edit_attached_body_color c) r =
          ([], Inr (r\<lparr>attached_body_color_property :=
                        (attached_body_color_property r)\<lparr>prop_value := c\<rparr>,
                      planning_scene_needs_render := True\<rparr>)))"
proof -
  have "reachable r \<Longrightarrow>
        property_edited env (Edit_scene_alpha a) r =
          ([], Inr (r\<lparr>scene_alpha_property := (scene_alpha_property r)\<lparr>prop_value := a\<rparr>,
                      planning_scene_needs_render := True\<rparr>))
        \<and> property_edited env (Edit_scene_color c) r =
          ([], Inr (r\<lparr>scene_color_property := (scene_color_property r)\<lparr>prop_value := c\<rparr>,
                      planning_scene_needs_render := True\<rparr>))
        \<and> property_edited env (Edit_attached_body_color c) r =
          ([], Inr (r\<lparr>attached_body_color_property :=
                        (attached_body_color_property r)\<lparr>prop_value := c\<rparr>,
                      planning_scene_needs_render := True\<rparr>))"
    using reachable_slots [of r]
    by (simp add: slots_as_constructed_def property_edited_def edited_slot_def set_property_def
        invoke_slot_def changedSceneAlpha_def changedSceneColor_def changedAttachedBodyColor_def
        queueRenderSceneGeometry_def returns_def)
  then show ?thesis
    by (simp add: changedSceneAlpha_def changedSceneColor_def changedAttachedBodyColor_def
        queueRenderSceneGeometry_def)
qed

theorem scene_geometry_property_change_queues_render_witness:
  "reachable loaded_display
   \<and> property_edited example_env (Edit_scene_alpha (1 / 2))
        (loaded_display\<lparr>planning_scene_needs_render := False\<rparr>) =
       ([], Inr (loaded_display
          \<lparr>scene_alpha_property := (scene_alpha_property loaded_display)\<lparr>prop_value := 1 / 2\<rparr>,
           planning_scene_needs_render := True\<rparr>))"
proof -
  have "reachable (loaded_display\<lparr>planning_scene_needs_render := False\<rparr>)"
    by (rule reachable.operation [OF reachable_loaded_display,
          where env = example_env and op = OP_renderPlanningScene
          and evs = "[LockScene, RenderPlanningScene (render_arguments loaded_display), UnlockScene]"])
       (simp add: step_def renderPlanningScene_def try_render_def render_arguments_def
          getPlanningScene_def call_simps example_defs Let_def)
  with scene_geometry_property_change_queues_render
         [where d = loaded_display
            and r = "loaded_display\<lparr>planning_scene_needs_render := False\<rparr>"
            and env = example_env and a = "1 / 2" and c = "QColor 0 0 0"]
       reachable_loaded_display
  show ?thesis by simp
qed

subsection \<open>Scene updates\<close>

lemma loadRobotModel_registers:
  assumes "display_context env \<noteq> None"
    and "monitor_planning_scene (fresh_monitor env d) = Some s" and "scene_configured s"
  shows "take 2 (fst (loadRobotModel env d)) =
           [AddUpdateCallback CB_sceneMonitorReceivedUpdate,
            StartSceneMonitor (prop_value (planning_scene_topic_property d))]"
proof (cases "monitor_kinematic_model (fresh_monitor env d) = None \<or> planning_scene_robot d = None")
  case True
  show ?thesis by (simp add: loadRobotModel_faults [OF assms True])
next
  case False
  then obtain km rb where "monitor_kinematic_model (fresh_monitor env d) = Some km"
    "planning_scene_robot d = Some rb" by auto
  with assms show ?thesis by (simp add: loadRobotModel_success)
qed

lemma sceneMonitorReceivedUpdate_refreshes:
  assumes "planning_scene_monitor d = Some m" and "monitor_planning_scene m = Some s"
    and "monitor_kinematic_model m = Some km"
  shows "sceneMonitorReceivedUpdate update_type d =
           ([], Inr (d\<lparr>scene_name_property := (scene_name_property d)\<lparr>prop_value := scene_name s\<rparr>,
                       root_link_name_property :=
                         (root_link_name_property d)\<lparr>prop_value := root_link_name km\<rparr>,
                       planning_scene_needs_render := True\<rparr>))"
  using assms
  by (intro eq_by_post)
     (simp add: sceneMonitorReceivedUpdate_def onSceneMonitorReceivedUpdate_def
        getPlanningScene_def getKinematicModel_def post_simps)

lemma refreshed_properties_need_no_slot:
  assumes "planning_scene_monitor d = Some m" and "monitor_planning_scene m = Some s"
    and "monitor_kinematic_model m = Some km"
  shows "changedSceneName
           (d\<lparr>scene_name_property := (scene_name_property d)\<lparr>prop_value := scene_name s\<rparr>\<rparr>)
         = d\<lparr>scene_name_property := (scene_name_property d)\<lparr>prop_value := scene_name s\<rparr>\<rparr>"
    and "changedRootLinkName
           (d\<lparr>root_link_name_property :=
                (root_link_name_property d)\<lparr>prop_value := root_link_name km\<rparr>\<rparr>)
         = ([], Inr (d\<lparr>root_link_name_property :=
                (root_link_name_property d)\<lparr>prop_value := root_link_name km\<rparr>\<rparr>))"
proof -
  have "d\<lparr>planning_scene_monitor := Some m\<rparr> = d"
    using assms(1) by (cases d) simp
  with assms show "changedSceneName
           (d\<lparr>scene_name_property := (scene_name_property d)\<lparr>prop_value := scene_name s\<rparr>\<rparr>)
         = d\<lparr>scene_name_property := (scene_name_property d)\<lparr>prop_value := scene_name s\<rparr>\<rparr>"
    by (simp add: changedSceneName_def PlanningScene_setName_def getPlanningScene_def)
  from assms show "changedRootLinkName
           (d\<lparr>root_link_name_property :=
                (root_link_name_property d)\<lparr>prop_value := root_link_name km\<rparr>\<rparr>)
         = ([], Inr (d\<lparr>root_link_name_property :=
                (root_link_name_property d)\<lparr>prop_value := root_link_name km\<rparr>\<rparr>))"
    by (simp add: changedRootLinkName_def getPlanningScene_def getKinematicModel_def call_simps)
qed

text \<open>
  C5. When the monitor that \<^verbatim>\<open>loadRobotModel\<close> constructs, in a display the host has
  initialised (\<^verbatim>\<open>context_\<close> is non-null), holds a configured scene, the first thing \<^verbatim>\<open>loadRobotModel\<close> does with it is to register
  \<^verbatim>\<open>sceneMonitorReceivedUpdate\<close> as its update callback and to start it on the
  configured topic. Whenever the callback runs while the display holds a monitor that
  provides a scene and a kinematic model (as the monitor that delivers the update
  does), for every update type, it copies the scene's name into the scene-name
  property and the model's root link name into the root-link-name property, sets the
  needs-render flag and changes nothing else; when the flag is set and a renderer is
  held, the next \<^verbatim>\<open>renderPlanningScene\<close> renders.
\<close>

theorem scene_update_refreshes_and_queues_render:
  "(display_context env \<noteq> None
      \<and> monitor_planning_scene (fresh_monitor env d0) = Some s0 \<and> scene_configured s0 \<longrightarrow>
      take 2 (fst (loadRobotModel env d0)) =
        [AddUpdateCallback CB_sceneMonitorReceivedUpdate,
         StartSceneMonitor (prop_value (planning_scene_topic_property d0))])
   \<and> (planning_scene_monitor d = Some m \<and> monitor_planning_scene m = Some s
        \<and> monitor_kinematic_model m = Some km \<longrightarrow>
        sceneMonitorReceivedUpdate update_type d =
          ([], Inr (d\<lparr>scene_name_property := (scene_name_property d)\<lparr>prop_value := scene_name s\<rparr>,
                      root_link_name_property :=
                        (root_link_name_property d)\<lparr>prop_value := root_link_name km\<rparr>,
                      planning_scene_needs_render := True\<rparr>)))"
  using loadRobotModel_registers [of env d0 s0]
    sceneMonitorReceivedUpdate_refreshes [of d m s km update_type]
  by blast

theorem scene_update_refreshes_and_queues_render_witness:
  "display_context example_env \<noteq> None
   \<and> monitor_planning_scene (fresh_monitor example_env loaded_display) = Some example_scene
   \<and> scene_configured example_scene
   \<and> take 2 (fst (loadRobotModel example_env loaded_display)) =
       [AddUpdateCallback CB_sceneMonitorReceivedUpdate, StartSceneMonitor ''planning_scene'']
   \<and> planning_scene_monitor
        (loaded_display\<lparr>planning_scene_needs_render := False,
           planning_scene_monitor := Some (example_monitor
             \<lparr>monitor_planning_scene := Some (example_scene\<lparr>scene_name := ''kitchen''\<rparr>)\<rparr>)\<rparr>)
       = Some (example_monitor
             \<lparr>monitor_planning_scene := Some (example_scene\<lparr>scene_name := ''kitchen''\<rparr>)\<rparr>)
   \<and> sceneMonitorReceivedUpdate UPDATE_SCENE
        (loaded_display\<lparr>planning_scene_needs_render := False,
           planning_scene_monitor := Some (example_monitor
             \<lparr>monitor_planning_scene := Some (example_scene\<lparr>scene_name := ''kitchen''\<rparr>)\<rparr>)\<rparr>)
       = ([], Inr (loaded_display
            \<lparr>planning_scene_monitor := Some (example_monitor
               \<lparr>monitor_planning_scene := Some (example_scene\<lparr>scene_name := ''kitchen''\<rparr>)\<rparr>),
             scene_name_property :=
               (scene_name_property loaded_display)\<lparr>prop_value := ''kitchen''\<rparr>,
             planning_scene_needs_render := True\<rparr>))"
  using scene_update_refreshes_and_queues_render
    [where env = example_env and ?d0.0 = loaded_display and ?s0.0 = example_scene
       and d = "loaded_display\<lparr>planning_scene_needs_render := False,
           planning_scene_monitor := Some (example_monitor
             \<lparr>monitor_planning_scene := Some (example_scene\<lparr>scene_name := ''kitchen''\<rparr>)\<rparr>)\<rparr>"
       and m = "example_monitor
             \<lparr>monitor_planning_scene := Some (example_scene\<lparr>scene_name := ''kitchen''\<rparr>)\<rparr>"
       and s = "example_scene\<lparr>scene_name := ''kitchen''\<rparr>"
       and km = example_model and update_type = UPDATE_SCENE]
  by (simp add: fresh_monitor_def example_defs)

subsection \<open>Colouring links\<close>

lemma setLinkColor_robot_absent:
  "getLink rb link_name = None \<Longrightarrow> setLinkColor_robot (Some rb) link_name color = ([], Inr (Some rb))"
  by (simp add: setLinkColor_robot_def call_simps)

lemma unsetLinkColor_robot_absent:
  "getLink rb link_name = None \<Longrightarrow> unsetLinkColor_robot (Some rb) link_name = ([], Inr (Some rb))"
  by (simp add: unsetLinkColor_robot_def call_simps)

lemma setLinkColor_robot_present:
  "getLink rb link_name = Some l \<Longrightarrow>
     \<exists>rb'. setLinkColor_robot (Some rb) link_name color = ([], Inr (Some rb'))
       \<and> getLink rb' link_name =
           Some (l\<lparr>link_color := Some (Color (redF color) (greenF color) (blueF color))\<rparr>)
       \<and> (\<forall>n. n \<noteq> link_name \<longrightarrow> getLink rb' n = getLink rb n)"
  by (simp add: setLinkColor_robot_def call_simps getLink_def)

lemma unsetLinkColor_robot_present:
  "getLink rb link_name = Some l \<Longrightarrow>
     \<exists>rb'. unsetLinkColor_robot (Some rb) link_name = ([], Inr (Some rb'))
       \<and> getLink rb' link_name = Some (l\<lparr>link_color := None\<rparr>)
       \<and> (\<forall>n. n \<noteq> link_name \<longrightarrow> getLink rb' n = getLink rb n)"
  by (simp add: unsetLinkColor_robot_def call_simps getLink_def)

text \<open>
  C10. For a robot \<open>rb\<close> and a link name that \<^verbatim>\<open>getLink\<close> does not find in it, the
  forms of \<^verbatim>\<open>setLinkColor\<close> and \<^verbatim>\<open>unsetLinkColor\<close> that take the robot return normally
  and leave the robot as it was, every link with the colour it had; so do the
  one-argument forms on a display whose robot is \<open>rb\<close>, which leave the whole display
  as it was. When \<^verbatim>\<open>getLink\<close> finds the link, that link gets the colour (or loses it)
  and every other link is as before.
\<close>

theorem link_color_of_unknown_link_is_noop:
  "(getLink rb link_name = None \<longrightarrow>
      setLinkColor_robot (Some rb) link_name color = ([], Inr (Some rb))
      \<and> unsetLinkColor_robot (Some rb) link_name = ([], Inr (Some rb))
      \<and> (planning_scene_robot d = Some rb \<longrightarrow>
            setLinkColor link_name color d = ([], Inr d)
            \<and> unsetLinkColor link_name d = ([], Inr d)))
   \<and> (getLink rb link_name = Some l \<longrightarrow>
        (\<exists>rb'. setLinkColor_robot (Some rb) link_name color = ([], Inr (Some rb'))
           \<and> getLink rb' link_name =
               Some (l\<lparr>link_color := Some (Color (redF color) (greenF color) (blueF color))\<rparr>)
           \<and> (\<forall>n. n \<noteq> link_name \<longrightarrow> getLink rb' n = getLink rb n))
        \<and> (\<exists>rb'. unsetLinkColor_robot (Some rb) link_name = ([], Inr (Some rb'))
           \<and> getLink rb' link_name = Some (l\<lparr>link_color := None\<rparr>)
           \<and> (\<forall>n. n \<noteq> link_name \<longrightarrow> getLink rb' n = getLink rb n)))"
proof -
  have "setLinkColor link_name color d = ([], Inr d) \<and> unsetLinkColor link_name d = ([], Inr d)"
    if "getLink rb link_name = None" and "planning_scene_robot d = Some rb"
  proof -
    have "d\<lparr>planning_scene_robot := Some rb\<rparr> = d"
      using that(2) by (cases d) simp
    with that show ?thesis
      by (simp add: setLinkColor_def unsetLinkColor_def setLinkColor_robot_absent
          unsetLinkColor_robot_absent call_simps)
  qed
  then show ?thesis
    using setLinkColor_robot_absent [of rb link_name color]
      unsetLinkColor_robot_absent [of rb link_name]
      setLinkColor_robot_present [of rb link_name l color]
      unsetLinkColor_robot_present [of rb link_name l]
    by blast
qed

theorem link_color_of_unknown_link_is_noop_witness:
  "getLink example_robot ''gripper'' = None
   \<and> planning_scene_robot loaded_display = Some example_robot
   \<and> setLinkColor_robot (Some example_robot) ''gripper'' (QColor 255 0 0)
       = ([], Inr (Some example_robot))
   \<and> unsetLinkColor ''gripper'' loaded_display = ([], Inr loaded_display)
   \<and> getLink example_robot ''arm_link'' = Some \<lparr>link_color = None\<rparr>
   \<and> (\<exists>rb'. setLinkColor_robot (Some example_robot) ''arm_link'' (QColor 255 0 0)
                = ([], Inr (Some rb'))
          \<and> getLink rb' ''arm_link'' = Some \<lparr>link_color = Some (Color 1 0 0)\<rparr>
          \<and> getLink rb' ''base_link'' = getLink example_robot ''base_link'')"
proof -
  have h1: "getLink example_robot ''gripper'' = None"
    and h2: "planning_scene_robot loaded_display = Some example_robot"
    and h3: "getLink example_robot ''arm_link'' = Some \<lparr>link_color = None\<rparr>"
    by (simp_all add: example_robot_def getLink_def example_defs)
  from link_color_of_unknown_link_is_noop
         [where rb = example_robot and link_name = "''gripper''" and color = "QColor 255 0 0"
            and d = loaded_display and l = "\<lparr>link_color = None\<rparr>"] h1 h2
  have a: "setLinkColor_robot (Some example_robot) ''gripper'' (QColor 255 0 0)
             = ([], Inr (Some example_robot))
           \<and> unsetLinkColor ''gripper'' loaded_display = ([], Inr loaded_display)"
    by simp
  from link_color_of_unknown_link_is_noop
         [where rb = example_robot and link_name = "''arm_link''" and color = "QColor 255 0 0"
            and d = loaded_display and l = "\<lparr>link_color = None\<rparr>"] h3
  obtain rb' where "setLinkColor_robot (Some example_robot) ''arm_link'' (QColor 255 0 0)
                = ([], Inr (Some rb'))"
     "getLink rb' ''arm_link'' = Some \<lparr>link_color = Some (Color (redF (QColor 255 0 0))
        (greenF (QColor 255 0 0)) (blueF (QColor 255 0 0)))\<rparr>"
     "\<forall>n. n \<noteq> ''arm_link'' \<longrightarrow> getLink rb' n = getLink example_robot n"
    by auto
  then have b: "\<exists>rb'. setLinkColor_robot (Some example_robot) ''arm_link'' (QColor 255 0 0)
                = ([], Inr (Some rb'))
          \<and> getLink rb' ''arm_link'' = Some \<lparr>link_color = Some (Color 1 0 0)\<rparr>
          \<and> getLink rb' ''base_link'' = getLink example_robot ''base_link''"
    by (intro exI [of _ rb']) (simp add: redF_def greenF_def blueF_def)
  from h1 h2 h3 a b show ?thesis by simp
qed

subsection \<open>The renderer is held only with a monitor\<close>

lemma renderPlanningScene_returns:
  assumes "pointers_consistent d"
  shows "\<exists>evs d'. renderPlanningScene env d = (evs, Inr d')"
proof (cases "planning_scene_render d \<noteq> None \<and> planning_scene_needs_render d")
  case False
  then show ?thesis by (simp add: renderPlanningScene_idle)
next
  case True
  with assms obtain m g where "planning_scene_monitor d = Some m"
    "planning_scene_geometry_node d = Some g"
    by (auto simp: pointers_consistent_def)
  with True renderPlanningScene_result [of d env] show ?thesis
    by (cases "renderPlanningScene env d") simp
qed

lemma loadRobotModel_pointers:
  "post (loadRobotModel env d)
     (keeps (\<lambda>d'. (planning_scene_render d' \<noteq> None) = (planning_scene_monitor d' \<noteq> None)))"
  by (auto simp: leaf_defs post_simps split: leaf_splits)

lemma reset_pointers:
  "post (reset env d)
     (keeps (\<lambda>d'. (planning_scene_render d' \<noteq> None) = (planning_scene_monitor d' \<noteq> None)))"
  by (auto simp: leaf_defs post_simps split: leaf_splits)

text \<open>
  C8. In every reachable state of the display, a non-null \<^verbatim>\<open>planning_scene_render_\<close>
  comes with a non-null \<^verbatim>\<open>planning_scene_monitor_\<close>, and \<^verbatim>\<open>renderPlanningScene\<close>
  returns without a fault, whatever the renderer does: its \<^verbatim>\<open>lockScene\<close> and
  \<^verbatim>\<open>unlockScene\<close> calls never go through a null pointer. Whenever \<^verbatim>\<open>loadRobotModel\<close>
  or \<^verbatim>\<open>reset\<close> returns, from any state, the display holds a renderer exactly if it
  holds a monitor.
\<close>

theorem renderer_only_with_monitor:
  "(reachable d \<longrightarrow>
      (planning_scene_render d \<noteq> None \<longrightarrow> planning_scene_monitor d \<noteq> None)
      \<and> (\<forall>env. \<exists>evs d'. renderPlanningScene env d = (evs, Inr d')))
   \<and> (\<forall>d'. snd (loadRobotModel env0 d0) = Inr d' \<longrightarrow>
          (planning_scene_render d' \<noteq> None) = (planning_scene_monitor d' \<noteq> None))
   \<and> (\<forall>d'. snd (reset env0 d0) = Inr d' \<longrightarrow>
          (planning_scene_render d' \<noteq> None) = (planning_scene_monitor d' \<noteq> None))"
proof (intro conjI impI allI)
  assume "reachable d"
  then show "planning_scene_monitor d \<noteq> None" if "planning_scene_render d \<noteq> None"
    using that reachable_pointers_consistent [of d] by (simp add: pointers_consistent_def)
next
  fix env
  assume "reachable d"
  then show "\<exists>evs d'. renderPlanningScene env d = (evs, Inr d')"
    using reachable_pointers_consistent renderPlanningScene_returns by blast
next
  fix d'
  assume "snd (loadRobotModel env0 d0) = Inr d'"
  with loadRobotModel_pointers [of env0 d0]
  show "(planning_scene_render d' \<noteq> None) = (planning_scene_monitor d' \<noteq> None)"
    by (simp add: post_def)
next
  fix d'
  assume "snd (reset env0 d0) = Inr d'"
  with reset_pointers [of env0 d0]
  show "(planning_scene_render d' \<noteq> None) = (planning_scene_monitor d' \<noteq> None)"
    by (simp add: post_def)
qed

theorem renderer_only_with_monitor_witness:
  "reachable loaded_display
   \<and> planning_scene_render loaded_display \<noteq> None
   \<and> planning_scene_monitor loaded_display \<noteq> None
   \<and> (\<exists>evs d'. renderPlanningScene throwing_env loaded_display = (evs, Inr d'))
   \<and> snd (loadRobotModel unconfigured_env loaded_display)
       = Inr (loaded_display\<lparr>planning_scene_monitor := None, planning_scene_render := None\<rparr>)
   \<and> (planning_scene_render
         (loaded_display\<lparr>planning_scene_monitor := None, planning_scene_render := None\<rparr>) \<noteq> None)
       = (planning_scene_monitor
         (loaded_display\<lparr>planning_scene_monitor := None, planning_scene_render := None\<rparr>) \<noteq> None)"
proof -
  have l: "snd (loadRobotModel unconfigured_env loaded_display)
       = Inr (loaded_display\<lparr>planning_scene_monitor := None, planning_scene_render := None\<rparr>)"
    by (simp add: loadRobotModel_failure fresh_monitor_def unconfigured_env_def example_env_def)
  have r: "planning_scene_render loaded_display \<noteq> None"
    by (simp add: loaded_display_def)
  from renderer_only_with_monitor
         [where d = loaded_display and ?env0.0 = unconfigured_env and ?d0.0 = loaded_display]
       reachable_loaded_display l r
  show ?thesis by simp
qed

subsection \<open>The update timer\<close>

lemma update_without_monitor:
  "planning_scene_monitor d = None
     \<Longrightarrow> update env wall_dt ros_dt d = ([Display_update wall_dt ros_dt], Inr d)"
  by (simp add: update_def call_simps)

lemma update_accumulates:
  "planning_scene_monitor d \<noteq> None
     \<Longrightarrow> \<not> prop_value (scene_display_time_property d) < current_scene_time d + wall_dt
     \<Longrightarrow> update env wall_dt ros_dt d =
           ([Display_update wall_dt ros_dt],
            Inr (d\<lparr>current_scene_time := current_scene_time d + wall_dt\<rparr>))"
  by (auto simp: update_def call_simps)

lemma update_fires:
  assumes "planning_scene_monitor d \<noteq> None"
    and "prop_value (scene_display_time_property d) < current_scene_time d + wall_dt"
  shows "update env wall_dt ros_dt d =
           (Display_update wall_dt ros_dt
              # fst (renderPlanningScene env
                       (d\<lparr>current_scene_time := current_scene_time d + wall_dt\<rparr>)),
            map_sum id (\<lambda>d'. d'\<lparr>current_scene_time := 0\<rparr>)
              (snd (renderPlanningScene env
                      (d\<lparr>current_scene_time := current_scene_time d + wall_dt\<rparr>))))"
  using assms
  by (cases "renderPlanningScene env (d\<lparr>current_scene_time := current_scene_time d + wall_dt\<rparr>)";
      cases "snd (renderPlanningScene env (d\<lparr>current_scene_time := current_scene_time d + wall_dt\<rparr>))")
     (auto simp: update_def call_simps)

lemma updates_below_display_time:
  assumes "\<forall>k. 0 < k \<and> k \<le> length dts \<longrightarrow>
             \<not> prop_value (scene_display_time_property d)
                 < foldl (+) (current_scene_time d) (map fst (take k dts))"
  shows "run (map (\<lambda>(wall_dt, ros_dt). (env, OP_update wall_dt ros_dt)) dts) d =
           (map (\<lambda>(wall_dt, ros_dt). Display_update wall_dt ros_dt) dts,
            Inr (if planning_scene_monitor d = None then d
                 else d\<lparr>current_scene_time := foldl (+) (current_scene_time d) (map fst dts)\<rparr>))"
  using assms
proof (induction dts arbitrary: d)
  case Nil
  then show ?case by (simp add: returns_def)
next
  case (Cons x xs)
  obtain w r where x: "x = (w, r)" by (cases x)
  show ?case
  proof (cases "planning_scene_monitor d = None")
    case True
    have "\<forall>k. 0 < k \<and> k \<le> length xs \<longrightarrow>
             \<not> prop_value (scene_display_time_property d)
                 < foldl (+) (current_scene_time d) (map fst (take k xs))
          \<Longrightarrow> run (map (\<lambda>(wall_dt, ros_dt). (env, OP_update wall_dt ros_dt)) xs) d =
           (map (\<lambda>(wall_dt, ros_dt). Display_update wall_dt ros_dt) xs, Inr d)"
      using Cons.IH [of d] True by simp
    moreover have "run (map (\<lambda>(wall_dt, ros_dt). (env, OP_update wall_dt ros_dt)) xs) d =
           (map (\<lambda>(wall_dt, ros_dt). Display_update wall_dt ros_dt) xs, Inr d)"
      if "planning_scene_monitor d = None" for xs :: "('a \<times> 'a) list"
      using that
      by (induction xs) (simp_all add: returns_def step_def update_without_monitor call_simps
          split: prod.splits)
    ultimately show ?thesis
      using True by (simp add: x step_def update_without_monitor call_simps)
  next
    case False
    let ?d = "d\<lparr>current_scene_time := current_scene_time d + w\<rparr>"
    have first: "\<not> prop_value (scene_display_time_property d) < current_scene_time d + w"
      using Cons.prems [rule_format, of 1] by (simp add: x)
    have rest: "\<forall>k. 0 < k \<and> k \<le> length xs \<longrightarrow>
             \<not> prop_value (scene_display_time_property ?d)
                 < foldl (+) (current_scene_time ?d) (map fst (take k xs))"
    proof (intro allI impI)
      fix k assume "0 < k \<and> k \<le> length xs"
      then show "\<not> prop_value (scene_display_time_property ?d)
                 < foldl (+) (current_scene_time ?d) (map fst (take k xs))"
        using Cons.prems [rule_format, of "Suc k"] by (simp add: x)
    qed
    from Cons.IH [OF rest] False first show ?thesis
      by (auto simp: x step_def update_accumulates call_simps)
  qed
qed

text \<open>
  C9. \<^verbatim>\<open>update\<close> calls the base class and then: without a scene monitor it returns with
  the display unchanged, the accumulated scene time included; with a monitor it adds
  \<^verbatim>\<open>wall_dt\<close> to \<^verbatim>\<open>current_scene_time_\<close>, and exactly when the sum is strictly greater
  than the value of the scene-display-time property it calls \<^verbatim>\<open>renderPlanningScene\<close>
  and then sets the accumulator to 0; otherwise it keeps the sum. The property is
  constructed with the minimum 0.0001. Hence over any sequence of updates, as long as
  no running sum of the \<^verbatim>\<open>wall_dt\<close> values, started from the accumulator, exceeds the
  display time, no render pass happens and the accumulator is the running sum; a call
  into the renderer during the sequence means that some running sum exceeded the
  display time. Addition and comparison are those of the float type, whatever they are.
\<close>

theorem update_rate_limits_rendering:
  "(planning_scene_monitor d = None \<longrightarrow>
      update env wall_dt ros_dt d = ([Display_update wall_dt ros_dt], Inr d))
   \<and> (planning_scene_monitor d \<noteq> None
        \<and> \<not> prop_value (scene_display_time_property d) < current_scene_time d + wall_dt \<longrightarrow>
        update env wall_dt ros_dt d =
          ([Display_update wall_dt ros_dt],
           Inr (d\<lparr>current_scene_time := current_scene_time d + wall_dt\<rparr>)))
   \<and> (planning_scene_monitor d \<noteq> None
        \<and> prop_value (scene_display_time_property d) < current_scene_time d + wall_dt \<longrightarrow>
        update env wall_dt ros_dt d =
          (Display_update wall_dt ros_dt
             # fst (renderPlanningScene env
                      (d\<lparr>current_scene_time := current_scene_time d + wall_dt\<rparr>)),
           map_sum id (\<lambda>d'. d'\<lparr>current_scene_time := 0\<rparr>)
             (snd (renderPlanningScene env
                     (d\<lparr>current_scene_time := current_scene_time d + wall_dt\<rparr>)))))
   \<and> prop_min (scene_display_time_property
                  (PlanningSceneDisplay :: 'g::{zero,numeral,inverse} PlanningSceneDisplay))
       = Some (1 / 10000)
   \<and> ((\<forall>k. 0 < k \<and> k \<le> length dts \<longrightarrow>
          \<not> prop_value (scene_display_time_property d)
              < foldl (+) (current_scene_time d) (map fst (take k dts))) \<longrightarrow>
        run (map (\<lambda>(wall_dt, ros_dt). (env, OP_update wall_dt ros_dt)) dts) d =
          (map (\<lambda>(wall_dt, ros_dt). Display_update wall_dt ros_dt) dts,
           Inr (if planning_scene_monitor d = None then d
                else d\<lparr>current_scene_time :=
                         foldl (+) (current_scene_time d) (map fst dts)\<rparr>)))
   \<and> ((\<exists>e \<in> set (fst (run (map (\<lambda>(wall_dt, ros_dt). (env, OP_update wall_dt ros_dt)) dts) d)).
          is_render e) \<longrightarrow>
        (\<exists>k. 0 < k \<and> k \<le> length dts
           \<and> prop_value (scene_display_time_property d)
               < foldl (+) (current_scene_time d) (map fst (take k dts))))"
proof -
  have quiet_run: "\<not> (\<exists>e \<in> set (fst (run (map (\<lambda>(wall_dt, ros_dt). (env, OP_update wall_dt ros_dt)) dts) d)).
          is_render e)"
    if "\<forall>k. 0 < k \<and> k \<le> length dts \<longrightarrow>
          \<not> prop_value (scene_display_time_property d)
              < foldl (+) (current_scene_time d) (map fst (take k dts))"
    by (auto simp: updates_below_display_time [OF that] is_render_def)
  have "prop_min (scene_display_time_property
                  (PlanningSceneDisplay :: 'g::{zero,numeral,inverse} PlanningSceneDisplay))
       = Some (1 / 10000)"
    by (simp add: PlanningSceneDisplay_def setMin_def new_FloatProperty_def)
  then show ?thesis
    using update_without_monitor [of d env wall_dt ros_dt]
      update_accumulates [of d wall_dt env ros_dt]
      update_fires [of d wall_dt env ros_dt]
      updates_below_display_time [of dts d env] quiet_run
    by blast
qed

theorem update_rate_limits_rendering_witness:
  "planning_scene_monitor loaded_display \<noteq> None
   \<and> \<not> prop_value (scene_display_time_property loaded_display)
         < current_scene_time loaded_display + 1 / 20
   \<and> update example_env (1 / 20) 0 loaded_display =
       ([Display_update (1 / 20) 0], Inr (loaded_display\<lparr>current_scene_time := 1 / 20\<rparr>))
   \<and> prop_value (scene_display_time_property loaded_display)
        < current_scene_time loaded_display + 1 / 4
   \<and> update example_env (1 / 4) 0 loaded_display =
       ([Display_update (1 / 4) 0, LockScene,
         RenderPlanningScene (render_arguments loaded_display), UnlockScene],
        Inr (loaded_display\<lparr>planning_scene_needs_render := False\<rparr>))
   \<and> run (map (\<lambda>(wall_dt, ros_dt). (example_env, OP_update wall_dt ros_dt))
             [(1 / 20, 0), (1 / 10, 0)]) loaded_display =
       ([Display_update (1 / 20) 0, Display_update (1 / 10) 0],
        Inr (loaded_display\<lparr>current_scene_time := 3 / 20\<rparr>))
   \<and> planning_scene_monitor (PlanningSceneDisplay :: rat PlanningSceneDisplay) = None
   \<and> update example_env 1 0 PlanningSceneDisplay = ([Display_update 1 0], Inr PlanningSceneDisplay)"
proof -
  have m: "planning_scene_monitor loaded_display \<noteq> None"
    and below: "\<not> prop_value (scene_display_time_property loaded_display)
         < current_scene_time loaded_display + 1 / 20"
    and above: "prop_value (scene_display_time_property loaded_display)
        < current_scene_time loaded_display + 1 / 4"
    by (simp_all add: loaded_display_fields)
  have n: "planning_scene_monitor (PlanningSceneDisplay :: rat PlanningSceneDisplay) = None"
    by (simp add: PlanningSceneDisplay_def)
  have sums: "\<forall>k. 0 < k \<and> k \<le> length [(1 / 20, 0), (1 / 10, 0 :: rat)] \<longrightarrow>
          \<not> prop_value (scene_display_time_property loaded_display)
              < foldl (+) (current_scene_time loaded_display)
                  (map fst (take k [(1 / 20, 0), (1 / 10, 0 :: rat)]))"
  proof (intro allI impI)
    fix k :: nat
    assume "0 < k \<and> k \<le> length [(1 / 20, 0), (1 / 10, 0 :: rat)]"
    then have "k = 1 \<or> k = 2" by auto
    then show "\<not> prop_value (scene_display_time_property loaded_display)
              < foldl (+) (current_scene_time loaded_display)
                  (map fst (take k [(1 / 20, 0), (1 / 10, 0 :: rat)]))"
      by (auto simp: loaded_display_fields)
  qed
  have render: "renderPlanningScene example_env (loaded_display\<lparr>current_scene_time := 1 / 4\<rparr>)
      = ([LockScene, RenderPlanningScene (render_arguments loaded_display), UnlockScene],
         Inr (loaded_display\<lparr>current_scene_time := 1 / 4,
                planning_scene_needs_render := False\<rparr>))"
    by (rule eq_by_post)
       (simp add: renderPlanningScene_def try_render_def render_arguments_def Let_def
          getPlanningScene_def post_simps loaded_display_fields example_env_def)
  note t = update_rate_limits_rendering
  from t [where 'g = rat and d = loaded_display and env = example_env and wall_dt = "1 / 20" and ros_dt = 0
             and dts = "[(1 / 20, 0), (1 / 10, 0)]"] m below sums
  have a: "update example_env (1 / 20) 0 loaded_display =
       ([Display_update (1 / 20) 0], Inr (loaded_display\<lparr>current_scene_time := 1 / 20\<rparr>))"
    and c: "run (map (\<lambda>(wall_dt, ros_dt). (example_env, OP_update wall_dt ros_dt))
             [(1 / 20, 0), (1 / 10, 0)]) loaded_display =
       ([Display_update (1 / 20) 0, Display_update (1 / 10) 0],
        Inr (loaded_display\<lparr>current_scene_time := 3 / 20\<rparr>))"
    by (simp_all add: loaded_display_fields)
  from t [where 'g = rat and d = loaded_display and env = example_env and wall_dt = "1 / 4" and ros_dt = 0
             and dts = "[]"] m above render
  have b: "update example_env (1 / 4) 0 loaded_display =
       ([Display_update (1 / 4) 0, LockScene,
         RenderPlanningScene (render_arguments loaded_display), UnlockScene],
        Inr (loaded_display\<lparr>planning_scene_needs_render := False\<rparr>))"
    by (simp add: loaded_display_fields)
  from t [where 'g = rat and d = "PlanningSceneDisplay :: rat PlanningSceneDisplay" and env = example_env
             and wall_dt = 1 and ros_dt = 0 and dts = "[]"] n
  have e: "update example_env 1 0 PlanningSceneDisplay = ([Display_update 1 0], Inr PlanningSceneDisplay)"
    by simp
  from m below above n a b c e show ?thesis by simp
qed

subsection \<open>Null checks\<close>

lemma safe_simps:
  "safe evs (Inr d) = collaborators_present d"
  "safe evs (Inl (NullDereference p)) =
     (p \<noteq> PTR_planning_scene_monitor \<and> p \<noteq> PTR_planning_scene \<and> p \<noteq> PTR_kinematic_model)"
  "safe evs (Inl (Uncaught x)) = True"
  by (auto simp: safe_def collaborator_fault_def)

lemma monitor_contractD:
  "monitor_contract env \<Longrightarrow> monitor_planning_scene (new_PlanningSceneMonitor env a b) = Some s
     \<Longrightarrow> scene_configured s
     \<Longrightarrow> \<exists>km. monitor_kinematic_model (new_PlanningSceneMonitor env a b) = Some km"
  unfolding monitor_contract_def
  by (drule spec [of _ a], drule spec [of _ b]) auto

lemma loadRobotModel_safe:
  assumes "monitor_contract env"
  shows "post (loadRobotModel env d) safe"
  using monitor_contractD [OF assms]
  by (fastforce simp: leaf_defs post_simps safe_simps collaborators_present_def split: leaf_splits)

lemma invoke_slot_safe:
  assumes "monitor_contract env" and "collaborators_present d"
  shows "post (invoke_slot env s d) safe"
  using monitor_contractD [OF assms(1)] assms(2)
  by (cases s)
     (fastforce simp: invoke_slot_def leaf_defs post_simps safe_simps collaborators_present_def
        split: leaf_splits)+

lemma set_property_collaborators:
  "collaborators_present (set_property e d) = collaborators_present d"
  by (cases e) (auto simp: set_property_def collaborators_present_def split: option.splits)

lemma setLinkColor_each_fault:
  "snd (setLinkColor_each robot ls c) = Inl f \<Longrightarrow> f = NullDereference PTR_robot"
proof (induction ls arbitrary: robot)
  case Nil
  then show ?case by (simp add: returns_def)
next
  case (Cons l ls)
  show ?case
  proof (cases robot)
    case None
    with Cons.prems show ?thesis by (simp add: setLinkColor_robot_None call_simps)
  next
    case (Some r)
    obtain r' where "setLinkColor_robot (Some r) l c = ([], Inr (Some r'))"
      using setLinkColor_robot_Some by blast
    with Cons.IH [of "Some r'"] Cons.prems Some show ?thesis
      by (simp add: call_simps split: prod.splits)
  qed
qed

lemma unsetLinkColor_each_fault:
  "snd (unsetLinkColor_each robot ls) = Inl f \<Longrightarrow> f = NullDereference PTR_robot"
proof (induction ls arbitrary: robot)
  case Nil
  then show ?case by (simp add: returns_def)
next
  case (Cons l ls)
  show ?case
  proof (cases robot)
    case None
    with Cons.prems show ?thesis by (simp add: unsetLinkColor_robot_None call_simps)
  next
    case (Some r)
    obtain r' where "unsetLinkColor_robot (Some r) l = ([], Inr (Some r'))"
      using unsetLinkColor_robot_Some by blast
    with Cons.IH [of "Some r'"] Cons.prems Some show ?thesis
      by (simp add: call_simps split: prod.splits)
  qed
qed

lemma setLinkColor_robot_fault: "\<not> collaborator_fault (snd (setLinkColor_robot robot l c))"
proof (cases robot)
  case None
  then show ?thesis by (simp add: setLinkColor_robot_None collaborator_fault_def)
next
  case (Some r)
  obtain r' where "setLinkColor_robot (Some r) l c = ([], Inr (Some r'))"
    using setLinkColor_robot_Some by blast
  with Some show ?thesis by (simp add: collaborator_fault_def)
qed

lemma unsetLinkColor_robot_fault: "\<not> collaborator_fault (snd (unsetLinkColor_robot robot l))"
proof (cases robot)
  case None
  then show ?thesis by (simp add: unsetLinkColor_robot_None collaborator_fault_def)
next
  case (Some r)
  obtain r' where "unsetLinkColor_robot (Some r) l = ([], Inr (Some r'))"
    using unsetLinkColor_robot_Some by blast
  with Some show ?thesis by (simp add: collaborator_fault_def)
qed

lemma setGroupColor_fault:
  "collaborators_present d \<Longrightarrow> \<not> collaborator_fault (snd (setGroupColor d robot g c))"
  using setLinkColor_each_fault [of robot _ c]
  by (auto simp: setGroupColor_def getPlanningScene_def getKinematicModel_def call_simps
      collaborators_present_def collaborator_fault_def split: option.splits)

lemma unsetGroupColor_fault:
  "collaborators_present d \<Longrightarrow> \<not> collaborator_fault (snd (unsetGroupColor d robot g))"
  using unsetLinkColor_each_fault [of robot]
  by (auto simp: unsetGroupColor_def getPlanningScene_def getKinematicModel_def call_simps
      collaborators_present_def collaborator_fault_def split: option.splits)

lemma unsetAllColors_fault:
  "collaborators_present d \<Longrightarrow> \<not> collaborator_fault (snd (unsetAllColors d robot))"
  using unsetLinkColor_each_fault [of robot]
  by (auto simp: unsetAllColors_def getPlanningScene_def getKinematicModel_def call_simps
      collaborators_present_def collaborator_fault_def split: option.splits)

lemma with_robot_safe:
  assumes "\<And>robot. silent (f robot) robot" and "\<And>robot. \<not> collaborator_fault (snd (f robot))"
    and "collaborators_present d"
  shows "post (with_robot a f d) safe"
proof (cases a)
  case This_robot
  obtain r where f: "f (planning_scene_robot d) = ([], r)"
    using assms(1) [of "planning_scene_robot d"] by (cases "f (planning_scene_robot d)") (simp add: silent_def)
  with assms(2) [of "planning_scene_robot d"] assms(3) show ?thesis
    unfolding This_robot with_robot_def
    by (cases r)
       (auto simp: call_simps post_def safe_def collaborator_fault_def collaborators_present_def
          split: option.splits)
next
  case (Other_robot x)
  obtain r where f: "f x = ([], r)"
    using assms(1) [of x] by (cases "f x") (simp add: silent_def)
  with assms(2) [of x] assms(3) show ?thesis
    unfolding Other_robot with_robot_def
    by (cases r) (auto simp: call_simps post_def safe_def collaborator_fault_def)
qed

lemma step_safe:
  assumes mc: "monitor_contract env" and cp: "collaborators_present d"
    and ug: "unguarded op \<longrightarrow> planning_scene_monitor d \<noteq> None"
  shows "post (step env op d) safe"
proof (cases op)
  case (OP_property_edited e)
  then show ?thesis
    using invoke_slot_safe [OF mc, of "set_property e d" "edited_slot e d"] cp
    by (simp add: step_def property_edited_def set_property_collaborators)
next
  case (OP_slot s)
  then show ?thesis
    using invoke_slot_safe [OF mc cp, of s] by (simp add: step_def)
next
  case (OP_setLinkColor_robot a l c)
  then show ?thesis
    using with_robot_safe [where f = "\<lambda>robot. setLinkColor_robot robot l c",
            OF setLinkColor_robot_silent setLinkColor_robot_fault cp]
    by (simp add: step_def)
next
  case (OP_unsetLinkColor_robot a l)
  then show ?thesis
    using with_robot_safe [where f = "\<lambda>robot. unsetLinkColor_robot robot l",
            OF unsetLinkColor_robot_silent unsetLinkColor_robot_fault cp]
    by (simp add: step_def)
next
  case (OP_setGroupColor a g c)
  then show ?thesis
    using with_robot_safe [where f = "\<lambda>robot. setGroupColor d robot g c",
            OF setGroupColor_silent setGroupColor_fault [OF cp] cp]
    by (simp add: step_def)
next
  case (OP_unsetGroupColor a g)
  then show ?thesis
    using with_robot_safe [where f = "\<lambda>robot. unsetGroupColor d robot g",
            OF unsetGroupColor_silent unsetGroupColor_fault [OF cp] cp]
    by (simp add: step_def)
next
  case (OP_unsetAllColors a)
  then show ?thesis
    using with_robot_safe [where f = "\<lambda>robot. unsetAllColors d robot",
            OF unsetAllColors_silent unsetAllColors_fault [OF cp] cp]
    by (simp add: step_def)
next
  case OP_reset
  then show ?thesis
    using monitor_contractD [OF mc] cp
    by (fastforce simp: step_def leaf_defs post_simps safe_simps collaborators_present_def
        split: leaf_splits)
next
  case OP_onEnable
  then show ?thesis
    using monitor_contractD [OF mc] cp
    by (fastforce simp: step_def leaf_defs post_simps safe_simps collaborators_present_def
        split: leaf_splits)
next
  case OP_loadRobotModel
  then show ?thesis
    using loadRobotModel_safe [OF mc] by (simp add: step_def)
qed (use cp ug in \<open>auto simp: step_def unguarded_def leaf_defs post_simps safe_simps
        collaborators_present_def split: leaf_splits\<close>)

lemma without_monitor:
  assumes "planning_scene_monitor d = None"
  shows "getPlanningScene d = None" and "getKinematicModel d = None"
    and "changedPlanningSceneTopic d = ([], Inr d)"
    and "calculateOffsetPosition env d = ([], Inr d)"
  using assms
  by (simp_all add: getPlanningScene_def getKinematicModel_def changedPlanningSceneTopic_def
      calculateOffsetPosition_def returns_def)

lemma without_scene:
  assumes "getPlanningScene d = None"
  shows "changedSceneName d = d" and "changedRootLinkName d = ([], Inr d)"
    and "setGroupColor d robot g c = ([], Inr robot)"
    and "unsetGroupColor d robot g = ([], Inr robot)"
    and "unsetAllColors d robot = ([], Inr robot)"
  using assms
  by (simp_all add: changedSceneName_def changedRootLinkName_def setGroupColor_def
      unsetGroupColor_def unsetAllColors_def returns_def)

text \<open>
  C6, as the code has it. Without a monitor, \<^verbatim>\<open>getPlanningScene\<close> and
  \<^verbatim>\<open>getKinematicModel\<close> return the empty pointer, and \<^verbatim>\<open>changedPlanningSceneTopic\<close>,
  \<^verbatim>\<open>calculateOffsetPosition\<close> and \<^verbatim>\<open>update\<close> (after the base-class call) do nothing.
  Without a planning scene, \<^verbatim>\<open>changedSceneName\<close>, \<^verbatim>\<open>changedRootLinkName\<close>,
  \<^verbatim>\<open>setGroupColor\<close>, \<^verbatim>\<open>unsetGroupColor\<close> and \<^verbatim>\<open>unsetAllColors\<close> do nothing. The checks
  do not stand before every dereference: the scene-update callback and
  \<^verbatim>\<open>onRobotModelLoaded\<close> have none, \<^verbatim>\<open>calculateOffsetPosition\<close> checks the monitor and
  dereferences the scene, the handlers that check the scene dereference the model, and
  \<^verbatim>\<open>renderPlanningScene\<close> checks the renderer and dereferences the monitor. So: in a
  state where the monitor, if held, provides a scene and a kinematic model and a
  renderer is held only with a monitor, with a monitor constructor that provides a
  model whenever it provides a configured scene, no operation dereferences a null
  monitor, scene or model pointer, and it returns in such a state again, provided the
  callback and \<^verbatim>\<open>onRobotModelLoaded\<close> run only while a monitor is held.
\<close>

theorem null_checks_guard_collaborators:
  "(planning_scene_monitor d = None \<longrightarrow>
      getPlanningScene d = None \<and> getKinematicModel d = None
      \<and> changedPlanningSceneTopic d = ([], Inr d)
      \<and> calculateOffsetPosition env d = ([], Inr d)
      \<and> update env wall_dt ros_dt d = ([Display_update wall_dt ros_dt], Inr d))
   \<and> (getPlanningScene d = None \<longrightarrow>
        changedSceneName d = d \<and> changedRootLinkName d = ([], Inr d)
        \<and> setGroupColor d robot g c = ([], Inr robot)
        \<and> unsetGroupColor d robot g = ([], Inr robot)
        \<and> unsetAllColors d robot = ([], Inr robot))
   \<and> (monitor_contract env \<and> collaborators_present d
        \<and> (unguarded op \<longrightarrow> planning_scene_monitor d \<noteq> None) \<longrightarrow>
        \<not> collaborator_fault (snd (step env op d))
        \<and> (\<forall>d'. snd (step env op d) = Inr d' \<longrightarrow> collaborators_present d'))"
proof -
  have no_monitor: "planning_scene_monitor d = None \<longrightarrow>
      getPlanningScene d = None \<and> getKinematicModel d = None
      \<and> changedPlanningSceneTopic d = ([], Inr d)
      \<and> calculateOffsetPosition env d = ([], Inr d)
      \<and> update env wall_dt ros_dt d = ([Display_update wall_dt ros_dt], Inr d)"
    by (simp add: without_monitor update_without_monitor)
  have no_scene: "getPlanningScene d = None \<longrightarrow>
        changedSceneName d = d \<and> changedRootLinkName d = ([], Inr d)
        \<and> setGroupColor d robot g c = ([], Inr robot)
        \<and> unsetGroupColor d robot g = ([], Inr robot)
        \<and> unsetAllColors d robot = ([], Inr robot)"
    by (simp add: without_scene)
  have present: "monitor_contract env \<and> collaborators_present d
        \<and> (unguarded op \<longrightarrow> planning_scene_monitor d \<noteq> None) \<longrightarrow>
        \<not> collaborator_fault (snd (step env op d))
        \<and> (\<forall>d'. snd (step env op d) = Inr d' \<longrightarrow> collaborators_present d')"
  proof
    assume "monitor_contract env \<and> collaborators_present d
        \<and> (unguarded op \<longrightarrow> planning_scene_monitor d \<noteq> None)"
    then have "post (step env op d) safe"
      by (intro step_safe) simp_all
    then show "\<not> collaborator_fault (snd (step env op d))
        \<and> (\<forall>d'. snd (step env op d) = Inr d' \<longrightarrow> collaborators_present d')"
      by (auto simp: post_def safe_def)
  qed
  show ?thesis
    by (rule conjI [OF no_monitor conjI [OF no_scene present]])
qed

theorem null_checks_guard_collaborators_witness:
  "planning_scene_monitor (PlanningSceneDisplay :: rat PlanningSceneDisplay) = None
   \<and> getPlanningScene (PlanningSceneDisplay :: rat PlanningSceneDisplay) = None
   \<and> calculateOffsetPosition example_env PlanningSceneDisplay = ([], Inr PlanningSceneDisplay)
   \<and> changedSceneName (PlanningSceneDisplay :: rat PlanningSceneDisplay) = PlanningSceneDisplay
   \<and> monitor_contract example_env
   \<and> collaborators_present loaded_display
   \<and> unguarded (OP_sceneMonitorReceivedUpdate UPDATE_SCENE :: rat operation)
   \<and> planning_scene_monitor loaded_display \<noteq> None
   \<and> \<not> collaborator_fault
         (snd (step example_env (OP_sceneMonitorReceivedUpdate UPDATE_SCENE) loaded_display))"
proof -
  have n: "planning_scene_monitor (PlanningSceneDisplay :: rat PlanningSceneDisplay) = None"
    by (simp add: PlanningSceneDisplay_def)
  have m: "planning_scene_monitor loaded_display \<noteq> None"
    by (simp add: loaded_display_fields)
  have u: "unguarded (OP_sceneMonitorReceivedUpdate UPDATE_SCENE :: rat operation)"
    by (simp add: unguarded_def)
  note t = null_checks_guard_collaborators
  from t [where d = "PlanningSceneDisplay :: rat PlanningSceneDisplay" and env = example_env
            and wall_dt = 0 and ros_dt = 0 and robot = None and g = "[]" and c = "QColor 0 0 0"
            and op = OP_onInitialize] n
  have a: "getPlanningScene (PlanningSceneDisplay :: rat PlanningSceneDisplay) = None
     \<and> calculateOffsetPosition example_env PlanningSceneDisplay = ([], Inr PlanningSceneDisplay)
     \<and> changedSceneName (PlanningSceneDisplay :: rat PlanningSceneDisplay) = PlanningSceneDisplay"
    by simp
  from t [where d = loaded_display and env = example_env
            and wall_dt = 0 and ros_dt = 0 and robot = None and g = "[]" and c = "QColor 0 0 0"
            and op = "OP_sceneMonitorReceivedUpdate UPDATE_SCENE"]
    monitor_contract_example collaborators_present_loaded m
  have b: "\<not> collaborator_fault
         (snd (step example_env (OP_sceneMonitorReceivedUpdate UPDATE_SCENE) loaded_display))"
    by simp
  from n m u a b monitor_contract_example collaborators_present_loaded show ?thesis by simp
qed

theorem unguarded_dereference_counterexample:
  "snd (step example_env (OP_sceneMonitorReceivedUpdate UPDATE_SCENE)
          (PlanningSceneDisplay :: rat PlanningSceneDisplay))
     = Inl (NullDereference PTR_planning_scene)
   \<and> planning_scene_monitor
        (loaded_display\<lparr>planning_scene_monitor :=
           Some \<lparr>monitor_planning_scene = None, monitor_kinematic_model = None\<rparr>\<rparr>) \<noteq> None
   \<and> snd (calculateOffsetPosition example_env
        (loaded_display\<lparr>planning_scene_monitor :=
           Some \<lparr>monitor_planning_scene = None, monitor_kinematic_model = None\<rparr>\<rparr>))
     = Inl (NullDereference PTR_planning_scene)"
  by (simp add: step_def sceneMonitorReceivedUpdate_def onSceneMonitorReceivedUpdate_def
      calculateOffsetPosition_def getPlanningScene_def PlanningSceneDisplay_def call_simps
      example_env_def)

subsection \<open>The state of the display\<close>

lemma invoke_slot_bookkeeping:
  "post (invoke_slot env s d) (keeps (bookkeeping_kept False (flag_slot s) d))"
  by (cases s)
     (auto simp: invoke_slot_def bookkeeping_kept_def flag_slot_def leaf_defs post_simps
        split: leaf_splits)

lemma set_property_bookkeeping:
  "current_scene_time (set_property e d) = current_scene_time d"
  "planning_scene_needs_render (set_property e d) = planning_scene_needs_render d"
  by (cases e; simp add: set_property_def)+

lemma bookkeeping_kept_set_property:
  "bookkeeping_kept a b (set_property e d) = bookkeeping_kept a b d"
  by (simp add: fun_eq_iff bookkeeping_kept_def set_property_bookkeeping)

lemma with_robot_bookkeeping:
  assumes "\<And>robot. silent (f robot) robot"
  shows "post (with_robot a f d) (keeps (bookkeeping_kept False False d))"
proof (cases a)
  case This_robot
  obtain r where f: "f (planning_scene_robot d) = ([], r)"
    using assms [of "planning_scene_robot d"] by (cases "f (planning_scene_robot d)") (simp add: silent_def)
  then show ?thesis
    unfolding This_robot with_robot_def
    by (cases r) (auto simp: call_simps post_def bookkeeping_kept_def)
next
  case (Other_robot x)
  obtain r where f: "f x = ([], r)"
    using assms [of x] by (cases "f x") (simp add: silent_def)
  then show ?thesis
    unfolding Other_robot with_robot_def
    by (cases r) (auto simp: call_simps post_def bookkeeping_kept_def)
qed

lemma step_bookkeeping:
  "post (step env op d)
     (keeps (bookkeeping_kept (writes_current_scene_time op) (writes_needs_render op d) d))"
proof (cases op)
  case (OP_property_edited e)
  then show ?thesis
    using invoke_slot_bookkeeping [of env "edited_slot e d" "set_property e d"]
    by (simp add: step_def property_edited_def writes_current_scene_time_def
        writes_needs_render_def bookkeeping_kept_set_property)
next
  case (OP_slot s)
  then show ?thesis
    using invoke_slot_bookkeeping [of env s d]
    by (simp add: step_def writes_current_scene_time_def writes_needs_render_def)
next
  case (OP_setLinkColor_robot a l c)
  then show ?thesis
    using with_robot_bookkeeping [where f = "\<lambda>robot. setLinkColor_robot robot l c", OF setLinkColor_robot_silent]
    by (simp add: step_def writes_current_scene_time_def writes_needs_render_def)
next
  case (OP_unsetLinkColor_robot a l)
  then show ?thesis
    using with_robot_bookkeeping [where f = "\<lambda>robot. unsetLinkColor_robot robot l", OF unsetLinkColor_robot_silent]
    by (simp add: step_def writes_current_scene_time_def writes_needs_render_def)
next
  case (OP_setGroupColor a g c)
  then show ?thesis
    using with_robot_bookkeeping [where f = "\<lambda>robot. setGroupColor d robot g c", OF setGroupColor_silent]
    by (simp add: step_def writes_current_scene_time_def writes_needs_render_def)
next
  case (OP_unsetGroupColor a g)
  then show ?thesis
    using with_robot_bookkeeping [where f = "\<lambda>robot. unsetGroupColor d robot g", OF unsetGroupColor_silent]
    by (simp add: step_def writes_current_scene_time_def writes_needs_render_def)
next
  case (OP_unsetAllColors a)
  then show ?thesis
    using with_robot_bookkeeping [where f = "\<lambda>robot. unsetAllColors d robot", OF unsetAllColors_silent]
    by (simp add: step_def writes_current_scene_time_def writes_needs_render_def)
qed (auto simp: step_def writes_current_scene_time_def writes_needs_render_def
       bookkeeping_kept_def leaf_defs post_simps split: leaf_splits)

text \<open>
  C7, as the code has it. The state of the display is its property fields, its
  pointers to the monitor, the renderer, the robot and the two scene nodes, and two
  fields that are neither: the accumulated scene time \<^verbatim>\<open>current_scene_time_\<close> and the
  flag \<^verbatim>\<open>planning_scene_needs_render_\<close>. Two displays that agree on all of these are
  equal, so there is no further state. Of the operations, only \<^verbatim>\<open>update\<close> writes the
  accumulated time, and only \<^verbatim>\<open>queueRenderSceneGeometry\<close>, the slots of scene alpha,
  scene colour and attached body colour, the scene-update callback,
  \<^verbatim>\<open>renderPlanningScene\<close> and \<^verbatim>\<open>update\<close> write the flag.
\<close>

theorem display_state_is_configuration_pointers_and_bookkeeping:
  "((d = d') =
      (configuration d = configuration d' \<and> collaborators d = collaborators d'
       \<and> current_scene_time d = current_scene_time d'
       \<and> planning_scene_needs_render d = planning_scene_needs_render d'))
   \<and> (\<forall>d1. snd (step env op d) = Inr d1 \<longrightarrow>
         (\<not> writes_current_scene_time op \<longrightarrow> current_scene_time d1 = current_scene_time d)
         \<and> (\<not> writes_needs_render op d \<longrightarrow>
               planning_scene_needs_render d1 = planning_scene_needs_render d))"
proof -
  have "(d = d') =
      (configuration d = configuration d' \<and> collaborators d = collaborators d'
       \<and> current_scene_time d = current_scene_time d'
       \<and> planning_scene_needs_render d = planning_scene_needs_render d')"
    by (cases d, cases d') (auto simp: configuration_def collaborators_def)
  moreover have "\<forall>d1. snd (step env op d) = Inr d1 \<longrightarrow>
         (\<not> writes_current_scene_time op \<longrightarrow> current_scene_time d1 = current_scene_time d)
         \<and> (\<not> writes_needs_render op d \<longrightarrow>
               planning_scene_needs_render d1 = planning_scene_needs_render d)"
    using step_bookkeeping [of env op d] by (auto simp: post_def bookkeeping_kept_def)
  ultimately show ?thesis by (rule conjI)
qed

theorem display_state_is_configuration_pointers_and_bookkeeping_witness:
  "snd (step example_env OP_onDisable loaded_display)
     = Inr (loaded_display
         \<lparr>planning_scene_geometry_node := Some (createChildSceneNode\<lparr>node_visible := False\<rparr>),
          planning_scene_robot := Some (example_robot\<lparr>robot_visible := False\<rparr>)\<rparr>)
   \<and> \<not> writes_current_scene_time (OP_onDisable :: rat operation)
   \<and> \<not> writes_needs_render OP_onDisable loaded_display
   \<and> current_scene_time (loaded_display
         \<lparr>planning_scene_geometry_node := Some (createChildSceneNode\<lparr>node_visible := False\<rparr>),
          planning_scene_robot := Some (example_robot\<lparr>robot_visible := False\<rparr>)\<rparr>)
       = current_scene_time loaded_display
   \<and> planning_scene_needs_render (loaded_display
         \<lparr>planning_scene_geometry_node := Some (createChildSceneNode\<lparr>node_visible := False\<rparr>),
          planning_scene_robot := Some (example_robot\<lparr>robot_visible := False\<rparr>)\<rparr>)
       = planning_scene_needs_render loaded_display"
proof -
  have s: "snd (step example_env OP_onDisable loaded_display)
     = Inr (loaded_display
         \<lparr>planning_scene_geometry_node := Some (createChildSceneNode\<lparr>node_visible := False\<rparr>),
          planning_scene_robot := Some (example_robot\<lparr>robot_visible := False\<rparr>)\<rparr>)"
    by (rule snd_by_post)
       (simp add: step_def onDisable_def post_simps loaded_display_fields)
  have w: "\<not> writes_current_scene_time (OP_onDisable :: rat operation)"
    "\<not> writes_needs_render OP_onDisable loaded_display"
    by (simp_all add: writes_current_scene_time_def writes_needs_render_def)
  from display_state_is_configuration_pointers_and_bookkeeping
         [where d = loaded_display and d' = loaded_display and env = example_env
            and op = OP_onDisable] s w
  show ?thesis by simp
qed

theorem bookkeeping_fields_counterexample:
  "update example_env (1 / 10) 0 loaded_display =
     ([Display_update (1 / 10) 0], Inr (loaded_display\<lparr>current_scene_time := 1 / 10\<rparr>))
   \<and> configuration (loaded_display\<lparr>current_scene_time := 1 / 10\<rparr>) = configuration loaded_display
   \<and> collaborators (loaded_display\<lparr>current_scene_time := 1 / 10\<rparr>) = collaborators loaded_display
   \<and> loaded_display\<lparr>current_scene_time := 1 / 10\<rparr> \<noteq> loaded_display
   \<and> renderPlanningScene example_env loaded_display =
       ([LockScene, RenderPlanningScene (render_arguments loaded_display), UnlockScene],
        Inr (loaded_display\<lparr>planning_scene_needs_render := False\<rparr>))
   \<and> configuration (loaded_display\<lparr>planning_scene_needs_render := False\<rparr>)
       = configuration loaded_display
   \<and> collaborators (loaded_display\<lparr>planning_scene_needs_render := False\<rparr>)
       = collaborators loaded_display
   \<and> loaded_display\<lparr>planning_scene_needs_render := False\<rparr> \<noteq> loaded_display"
proof -
  have u: "update example_env (1 / 10) 0 loaded_display =
     ([Display_update (1 / 10) 0], Inr (loaded_display\<lparr>current_scene_time := 1 / 10\<rparr>))"
    by (simp add: update_accumulates loaded_display_fields)
  have r: "renderPlanningScene example_env loaded_display =
       ([LockScene, RenderPlanningScene (render_arguments loaded_display), UnlockScene],
        Inr (loaded_display\<lparr>planning_scene_needs_render := False\<rparr>))"
    by (rule eq_by_post)
       (simp add: renderPlanningScene_def try_render_def render_arguments_def Let_def
          getPlanningScene_def post_simps example_defs)
  have t: "loaded_display\<lparr>current_scene_time := 1 / 10\<rparr> \<noteq> loaded_display"
  proof
    assume "loaded_display\<lparr>current_scene_time := 1 / 10\<rparr> = loaded_display"
    then have "current_scene_time (loaded_display\<lparr>current_scene_time := 1 / 10\<rparr>)
                 = current_scene_time loaded_display" by simp
    then show False by (simp add: loaded_display_fields)
  qed
  have f: "loaded_display\<lparr>planning_scene_needs_render := False\<rparr> \<noteq> loaded_display"
  proof
    assume "loaded_display\<lparr>planning_scene_needs_render := False\<rparr> = loaded_display"
    then have "planning_scene_needs_render (loaded_display\<lparr>planning_scene_needs_render := False\<rparr>)
                 = planning_scene_needs_render loaded_display" by simp
    then show False by (simp add: loaded_display_fields)
  qed
  from u r t f show ?thesis by (simp add: configuration_def collaborators_def)
qed

end
